theory Spec2Isabelle
  imports Complex_Main "HOL-Library.AList" "HOL-Library.Sublist"
    "HOL-Library.Char_ord" "HOL-Library.List_Lexorder"
begin

section \<open>JavaScript values\<close>

text \<open>
  The client works on parsed JSON: resources, map configurations and layers are plain
  objects, arrays, strings, numbers, booleans, \<open>null\<close> and \<open>undefined\<close>. An object is the
  list of its own properties in insertion order. Numbers are the finite doubles that JSON
  can carry, read as the reals they denote (their order and equality agree); \<open>NaN\<close> does
  not occur in parsed JSON.
\<close>

datatype json =
    JUndefined
  | JNull
  | JBool bool
  | JNum real
  | JStr string
  | JArr "json list"
  | JObj "(string \<times> json) list"

text \<open>The only exception the modelled code can raise by itself.\<close>

datatype error = TypeError

fun truthy :: "json \<Rightarrow> bool" where
  "truthy JUndefined = False"
| "truthy JNull = False"
| "truthy (JBool b) = b"
| "truthy (JNum r) = (r \<noteq> 0)"
| "truthy (JStr s) = (s \<noteq> [])"
| "truthy (JArr xs) = True"
| "truthy (JObj kv) = True"

fun nullish :: "json \<Rightarrow> bool" where
  "nullish JUndefined = True"
| "nullish JNull = True"
| "nullish v = False"

text \<open>\<open>a || b\<close>, \<open>a && b\<close> and \<open>a ?? b\<close> on values (the right operand is a value here, so
  the short circuit only selects).\<close>

definition js_or :: "json \<Rightarrow> json \<Rightarrow> json" where
  "js_or a b = (if truthy a then a else b)"

definition js_and :: "json \<Rightarrow> json \<Rightarrow> json" where
  "js_and a b = (if truthy a then b else a)"

definition js_coalesce :: "json \<Rightarrow> json \<Rightarrow> json" where
  "js_coalesce a b = (if nullish a then b else a)"

text \<open>
  \<open>a === b\<close>. Primitives compare by value. Objects and arrays compare by reference; the
  operands of every \<open>===\<close> in the modelled code come from different places of parsed JSON
  (or one of them is a literal), where no object is shared, so two object operands are
  never the same reference.
\<close>

fun strict_eq :: "json \<Rightarrow> json \<Rightarrow> bool" where
  "strict_eq (JArr xs) b = False"
| "strict_eq (JObj kv) b = False"
| "strict_eq a b = (a = b)"

text \<open>The values that \<open>===\<close> compares by value.\<close>

fun isPrimitive :: "json \<Rightarrow> bool" where
  "isPrimitive (JArr xs) = False"
| "isPrimitive (JObj kv) = False"
| "isPrimitive v = True"

text \<open>Own property lookup in an object; a missing key reads \<open>undefined\<close>.\<close>

definition ownProp :: "(string \<times> json) list \<Rightarrow> string \<Rightarrow> json" where
  "ownProp kv k = (case map_of kv k of None \<Rightarrow> JUndefined | Some v \<Rightarrow> v)"

text \<open>
  \<open>v.k\<close> for a value \<open>v\<close> that is neither \<open>null\<close> nor \<open>undefined\<close>. Arrays and strings
  answer \<open>length\<close>; the other names the code reads (\<open>extent\<close>, \<open>links\<close>, \<open>id\<close>, ...) are
  not properties of arrays, strings, numbers or booleans. The one inherited name the code
  reads is \<open>map\<close> on an array (a function): the code only reads \<open>.layers\<close> and
  \<open>.sources\<close> of it and spreads it, which gives the same as for \<open>undefined\<close>.
\<close>

fun getProp :: "json \<Rightarrow> string \<Rightarrow> json" where
  "getProp (JObj kv) k = ownProp kv k"
| "getProp (JArr xs) k = (if k = ''length'' then JNum (real (length xs)) else JUndefined)"
| "getProp (JStr s) k = (if k = ''length'' then JNum (real (length s)) else JUndefined)"
| "getProp v k = JUndefined"

text \<open>\<open>v.k\<close> (a \<open>TypeError\<close> on \<open>null\<close> and \<open>undefined\<close>) and \<open>v?.k\<close>.\<close>

definition dot :: "json \<Rightarrow> string \<Rightarrow> error + json" where
  "dot v k = (if nullish v then Inl TypeError else Inr (getProp v k))"

definition qdot :: "json \<Rightarrow> string \<Rightarrow> json" where
  "qdot v k = (if nullish v then JUndefined else getProp v k)"

text \<open>lodash \<open>isEmpty\<close>: \<open>null\<close>, \<open>undefined\<close>, numbers and booleans are empty; a string, an
  array and an object are empty when they have no element or own key.\<close>

fun isEmpty :: "json \<Rightarrow> bool" where
  "isEmpty (JStr s) = (s = [])"
| "isEmpty (JArr xs) = (xs = [])"
| "isEmpty (JObj kv) = (kv = [])"
| "isEmpty v = True"

text \<open>
  What an array pattern \<open>[a, b, c, d] = v\<close> iterates: the elements of an array, the
  characters of a string; any other value is not iterable.
\<close>

fun iterate :: "json \<Rightarrow> error + json list" where
  "iterate (JArr xs) = Inr xs"
| "iterate (JStr s) = Inr (map (\<lambda>c. JStr [c]) s)"
| "iterate v = Inl TypeError"

definition nthOrUndefined :: "json list \<Rightarrow> nat \<Rightarrow> json" where
  "nthOrUndefined xs i = (if i < length xs then xs ! i else JUndefined)"

text \<open>
  The receiver of \<open>.find\<close>, \<open>.filter\<close> and \<open>.map\<close>: an array, or the call raises (a property
  of \<open>null\<close>, or not a function).
\<close>

fun asArray :: "json \<Rightarrow> error + json list" where
  "asArray (JArr xs) = Inr xs"
| "asArray v = Inl TypeError"

text \<open>Error propagation: the first exception aborts the computation.\<close>

definition bindE :: "error + 'a \<Rightarrow> ('a \<Rightarrow> error + 'b) \<Rightarrow> error + 'b" where
  "bindE m f = (case m of Inl e \<Rightarrow> Inl e | Inr v \<Rightarrow> f v)"

text \<open>\<open>xs.find(p)\<close> where the callback reads a property of the element (a destructuring
  parameter, or \<open>d.default\<close>): a \<open>null\<close> element raises when it is visited.\<close>

fun findWhere :: "(json \<Rightarrow> bool) \<Rightarrow> json list \<Rightarrow> error + json" where
  "findWhere p [] = Inr JUndefined"
| "findWhere p (x # xs) =
     (if nullish x then Inl TypeError else if p x then Inr x else findWhere p xs)"

text \<open>\<open>xs.filter(p)\<close> with a callback that can raise.\<close>

fun filterE :: "('a \<Rightarrow> error + bool) \<Rightarrow> 'a list \<Rightarrow> error + 'a list" where
  "filterE p [] = Inr []"
| "filterE p (x # xs) =
     bindE (p x) (\<lambda>b. bindE (filterE p xs) (\<lambda>ys. Inr (if b then x # ys else ys)))"

text \<open>A parameter or pattern default \<open>x = d\<close>: taken only for \<open>undefined\<close>.\<close>

definition withDefault :: "json \<Rightarrow> json \<Rightarrow> json" where
  "withDefault v d = (if v = JUndefined then d else v)"

subsection \<open>Object literals and spread\<close>

fun showNat :: "nat \<Rightarrow> string" where
  "showNat n =
     (if n < 10 then [''0123456789'' ! n]
      else showNat (n div 10) @ [''0123456789'' ! (n mod 10)])"

declare showNat.simps [simp del]

text \<open>The own enumerable properties that \<open>{...v}\<close> copies: those of an object, the
  indices of an array or string, none of any other value.\<close>

fun spread :: "json \<Rightarrow> (string \<times> json) list" where
  "spread (JObj kv) = kv"
| "spread (JArr xs) = map (\<lambda>(i, x). (showNat i, x)) (enumerate 0 xs)"
| "spread (JStr s) = map (\<lambda>(i, c). (showNat i, JStr [c])) (enumerate 0 s)"
| "spread v = []"

text \<open>An object literal: its properties and spreads are assigned from left to right; a
  key assigned again keeps its place and takes the new value.\<close>

definition objLit :: "(string \<times> json) list \<Rightarrow> json" where
  "objLit ps = JObj (fold (\<lambda>(k, v). AList.update k v) ps [])"

subsection \<open>Strings\<close>

fun strIncludes :: "string \<Rightarrow> string \<Rightarrow> bool" where
  "strIncludes [] p = (p = [])"
| "strIncludes (c # s) p = (prefix p (c # s) \<or> strIncludes s p)"

text \<open>\<open>s.split(p)[0]\<close> for a non-empty separator: the text before its first occurrence.\<close>

fun splitHead :: "string \<Rightarrow> string \<Rightarrow> string" where
  "splitHead p [] = []"
| "splitHead p (c # s) = (if prefix p (c # s) then [] else c # splitHead p s)"

text \<open>\<open>s.replace(p, r)\<close> for a non-empty string pattern: the first occurrence only.\<close>

fun replaceFirst :: "string \<Rightarrow> string \<Rightarrow> string \<Rightarrow> string" where
  "replaceFirst p r [] = []"
| "replaceFirst p r (c # s) =
     (if prefix p (c # s) then r @ drop (length p) (c # s) else c # replaceFirst p r s)"

fun joinWith :: "string \<Rightarrow> string list \<Rightarrow> string" where
  "joinWith sep [] = []"
| "joinWith sep [s] = s"
| "joinWith sep (s # t # ts) = s @ sep @ joinWith sep (t # ts)"

text \<open>\<open>v.includes(p)\<close> for a string \<open>p\<close>: substring test on a string, membership on an
  array; no other value has the method.\<close>

fun jsIncludes :: "json \<Rightarrow> string \<Rightarrow> error + bool" where
  "jsIncludes (JStr s) p = Inr (strIncludes s p)"
| "jsIncludes (JArr xs) p = Inr (JStr p \<in> set xs)"
| "jsIncludes v p = Inl TypeError"

section \<open>The environment of the module\<close>

text \<open>
  What \<open>ResourceUtils\<close> imports and does not define: the identifier generator \<open>uuid\<close>
  (each call returns the next value of a sequence), the configuration read by
  \<open>getConfigProp('geoNodeSettings')\<close>, \<open>parseDevHostname\<close>, \<open>isImageServerUrl\<close>,
  \<open>url.parse(u, true).query\<close>, the constant \<open>ServerTypes.NO_VENDOR\<close>, and the
  runtime's conversions of a string to a number and of a number to a string. They are
  parameters of the model.
\<close>

record env =
  uuids :: "nat \<Rightarrow> string"
  geoNodeSettings :: json
  parseDevHostname :: "json \<Rightarrow> json"
  isImageServerUrl :: "json \<Rightarrow> bool"
  urlParseQuery :: "string \<Rightarrow> json"
  NO_VENDOR :: json
  stringToNumber :: "string \<Rightarrow> real option"
  numberToString :: "real \<Rightarrow> string"

text \<open>\<open>String(v)\<close>, as a template literal and \<open>+\<close> with a string apply it.\<close>

fun toString :: "env \<Rightarrow> json \<Rightarrow> string" where
  "toString E JUndefined = ''undefined''"
| "toString E JNull = ''null''"
| "toString E (JBool b) = (if b then ''true'' else ''false'')"
| "toString E (JNum r) = numberToString E r"
| "toString E (JStr s) = s"
| "toString E (JArr xs) = joinWith '','' (map (\<lambda>x. if nullish x then [] else toString E x) xs)"
| "toString E (JObj kv) = ''[object Object]''"

text \<open>\<open>ToNumber\<close>: \<open>None\<close> is \<open>NaN\<close>. Arrays and objects convert through their string.\<close>

definition toNumber :: "env \<Rightarrow> json \<Rightarrow> real option" where
  "toNumber E v =
     (case v of
        JUndefined \<Rightarrow> None
      | JNull \<Rightarrow> Some 0
      | JBool b \<Rightarrow> Some (if b then 1 else 0)
      | JNum r \<Rightarrow> Some r
      | _ \<Rightarrow> stringToNumber E (toString E v))"

text \<open>\<open>v < c\<close> and \<open>v > c\<close> against a number literal: false when \<open>v\<close> converts to \<open>NaN\<close>.\<close>

definition ltNum :: "env \<Rightarrow> json \<Rightarrow> real \<Rightarrow> bool" where
  "ltNum E v c = (case toNumber E v of None \<Rightarrow> False | Some x \<Rightarrow> x < c)"

definition gtNum :: "env \<Rightarrow> json \<Rightarrow> real \<Rightarrow> bool" where
  "gtNum E v c = (case toNumber E v of None \<Rightarrow> False | Some x \<Rightarrow> x > c)"

section \<open>Extent of a resource\<close>

definition WGS84_MAX_EXTENT :: "real list" where
  "WGS84_MAX_EXTENT = [-180, -90, 180, 90]"

definition bboxOf :: "json \<Rightarrow> json \<Rightarrow> json \<Rightarrow> json \<Rightarrow> json" where
  "bboxOf minx miny maxx maxy =
     JObj [(''crs'', JStr ''EPSG:4326''),
           (''bounds'', JObj [(''minx'', minx), (''miny'', miny), (''maxx'', maxx), (''maxy'', maxy)])]"

definition getExtentFromResource :: "env \<Rightarrow> json \<Rightarrow> error + json" where
  "getExtentFromResource E resource =
     (case dot resource ''extent'' of
        Inl e \<Rightarrow> Inl e
      | Inr extent \<Rightarrow>
          if isEmpty (qdot extent ''coords'') then Inr JNull
          else (case iterate (getProp extent ''coords'') of
                  Inl e \<Rightarrow> Inl e
                | Inr cs \<Rightarrow>
                    let minx = nthOrUndefined cs 0; miny = nthOrUndefined cs 1;
                        maxx = nthOrUndefined cs 2; maxy = nthOrUndefined cs 3
                    in if ltNum E minx (WGS84_MAX_EXTENT ! 0) \<or> ltNum E miny (WGS84_MAX_EXTENT ! 1)
                          \<or> gtNum E maxx (WGS84_MAX_EXTENT ! 2) \<or> gtNum E maxy (WGS84_MAX_EXTENT ! 3)
                       then Inr JNull
                       else Inr (bboxOf minx miny maxx maxy)))"

section \<open>Download target of a resource\<close>

definition SOURCE_TYPES_LOCAL :: string where
  "SOURCE_TYPES_LOCAL = ''LOCAL''"

definition SOURCE_TYPES_REMOTE :: string where
  "SOURCE_TYPES_REMOTE = ''REMOTE''"

definition ResourceTypes_DOCUMENT :: string where
  "ResourceTypes_DOCUMENT = ''document''"

definition ResourceTypes_MAP :: string where
  "ResourceTypes_MAP = ''map''"

text \<open>\<open>resource && resource.resource_type === DOCUMENT && resource.sourcetype === REMOTE\<close>:
  the value of the chain, which callers test for truthiness.\<close>

definition isDocumentExternalSource :: "json \<Rightarrow> json" where
  "isDocumentExternalSource resource =
     (if truthy resource
      then (if strict_eq (getProp resource ''resource_type'') (JStr ResourceTypes_DOCUMENT)
            then JBool (strict_eq (getProp resource ''sourcetype'') (JStr SOURCE_TYPES_REMOTE))
            else JBool False)
      else resource)"

text \<open>\<open>urls.length === 1 ? urls[0] : urls.find((d) => d.default)\<close> for a non-empty \<open>urls\<close>.
  A string of one character is its own first character; a longer string and an object
  have no \<open>find\<close>.\<close>

fun pickDownloadData :: "json \<Rightarrow> error + json" where
  "pickDownloadData (JArr xs) =
     (if length xs = 1 then Inr (xs ! 0)
      else findWhere (\<lambda>d. truthy (getProp d ''default'')) xs)"
| "pickDownloadData (JStr s) = (if length s = 1 then Inr (JStr s) else Inl TypeError)"
| "pickDownloadData (JObj kv) =
     (if strict_eq (ownProp kv ''length'') (JNum 1) then Inr (ownProp kv ''0'') else Inl TypeError)"
| "pickDownloadData v = Inl TypeError"

definition hrefUrl :: "json \<Rightarrow> json" where
  "hrefUrl resource = JObj [(''url'', qdot resource ''href''), (''ajaxSafe'', JBool False)]"

definition downloadUrlOf :: "json \<Rightarrow> json" where
  "downloadUrlOf d = JObj [(''url'', getProp d ''url''), (''ajaxSafe'', getProp d ''ajax_safe'')]"

definition getDownloadUrlInfo :: "json \<Rightarrow> error + json" where
  "getDownloadUrlInfo resource =
     (if truthy (isDocumentExternalSource resource) then Inr (hrefUrl resource)
      else if \<not> isEmpty (qdot resource ''download_urls'')
      then (case pickDownloadData (getProp resource ''download_urls'') of
              Inl e \<Rightarrow> Inl e
            | Inr downloadData \<Rightarrow>
                if \<not> isEmpty downloadData then Inr (downloadUrlOf downloadData)
                else Inr (hrefUrl resource))
      else Inr (hrefUrl resource))"

section \<open>From a dataset resource to a layer\<close>

definition GXP_PTYPES_REST_MAP :: string where
  "GXP_PTYPES_REST_MAP = ''gxp_arcrestsource''"

definition GXP_PTYPES_REST_IMG :: string where
  "GXP_PTYPES_REST_IMG = ''gxp_arcrestsource''"

definition FEATURE_INFO_FORMAT :: string where
  "FEATURE_INFO_FORMAT = ''TEMPLATE''"

text \<open>\<open>const { url } = links.find(p) || {}\<close>.\<close>

definition findLinkUrl :: "(json \<Rightarrow> bool) \<Rightarrow> json \<Rightarrow> error + json" where
  "findLinkUrl p links =
     bindE (asArray links) (\<lambda>xs.
     bindE (findWhere p xs) (\<lambda>l. Inr (getProp (js_or l (JObj [])) ''url'')))"

text \<open>\<open>const { url } = links?.find(p) || {}\<close>.\<close>

definition findLinkUrlOpt :: "(json \<Rightarrow> bool) \<Rightarrow> json \<Rightarrow> error + json" where
  "findLinkUrlOpt p links = (if nullish links then Inr JUndefined else findLinkUrl p links)"

definition linkTypeIs :: "string \<Rightarrow> json \<Rightarrow> bool" where
  "linkTypeIs t l = strict_eq (getProp l ''link_type'') (JStr t)"

definition getDimensions :: "json \<Rightarrow> error + json list" where
  "getDimensions arg =
     (let a = withDefault arg (JObj []) in
      if nullish a then Inl TypeError
      else
        bindE (findLinkUrlOpt (linkTypeIs ''OGC:WMS'') (getProp a ''links'')) (\<lambda>wmsUrl.
        bindE (findLinkUrlOpt (linkTypeIs ''OGC:WMTS'') (getProp a ''links'')) (\<lambda>wmtsUrl.
          if truthy (getProp a ''has_time'')
          then
            bindE (if truthy wmtsUrl then Inr wmtsUrl
                   else (case js_or wmsUrl (JStr []) of
                           JStr s \<Rightarrow> Inr (JStr (splitHead ''/geoserver/'' s @ ''/geoserver/gwc/service/wmts''))
                         | _ \<Rightarrow> Inl TypeError))
              (\<lambda>u. Inr [JObj [(''name'', JStr ''time''),
                               (''source'', JObj [(''type'', JStr ''multidim-extension''),
                                                  (''url'', u)])]])
          else Inr [])))"

definition keepAttribute :: "json \<Rightarrow> error + bool" where
  "keepAttribute a =
     (if nullish a then Inl TypeError
      else bindE (jsIncludes (getProp a ''attribute_type'') ''gml:'') (\<lambda>b. Inr (\<not> b)))"

definition fieldOf :: "json \<Rightarrow> json" where
  "fieldOf a = JObj [(''name'', getProp a ''attribute''),
                     (''alias'', getProp a ''attribute_label''),
                     (''type'', getProp a ''attribute_type'')]"

definition datasetAttributeSetToFields :: "json \<Rightarrow> error + json list" where
  "datasetAttributeSetToFields resource =
     (if nullish resource then Inl TypeError
      else
        bindE (asArray (withDefault (getProp resource ''attribute_set'') (JArr []))) (\<lambda>xs.
        bindE (filterE keepAttribute xs) (\<lambda>ys. Inr (map fieldOf ys))))"

definition defaultStyleParamsOf :: "env \<Rightarrow> json \<Rightarrow> json" where
  "defaultStyleParamsOf E defaultStyle =
     js_and defaultStyle
       (JObj [(''defaultStyle'',
               JObj [(''title'', getProp defaultStyle ''sld_title''),
                     (''name'',
                      if truthy (getProp defaultStyle ''workspace'')
                      then JStr (toString E (getProp defaultStyle ''workspace'') @ '':''
                                 @ toString E (getProp defaultStyle ''name''))
                      else getProp defaultStyle ''name'')])])"

definition extendedParamsOf :: "env \<Rightarrow> json \<Rightarrow> json" where
  "extendedParamsOf E resource =
     objLit ([(''pk'', getProp resource ''pk''),
              (''mapLayer'', JObj [(''dataset'', resource)])]
             @ spread (defaultStyleParamsOf E (getProp resource ''default_style'')))"

text \<open>\<open>...(c && { k: v })\<close>: nothing when \<open>c\<close> is falsy.\<close>

definition spreadIf :: "json \<Rightarrow> (string \<times> json) list \<Rightarrow> (string \<times> json) list" where
  "spreadIf c ps = (if truthy c then ps else [])"

text \<open>The three branches. Each draws its \<open>id\<close> from \<open>uuid()\<close>: \<open>n\<close> counts the calls made so
  far, and the branch returns the count after it. What raises before the object literal
  leaves the count as it was; what raises inside the literal, after \<open>id: uuid()\<close>, has
  consumed the identifier.\<close>

definition layer3dtiles :: "env \<Rightarrow> nat \<Rightarrow> json \<Rightarrow> json \<Rightarrow> json \<Rightarrow> (error + json) \<times> nat" where
  "layer3dtiles E n resource links bbox =
     (case findLinkUrl (\<lambda>l. strict_eq (getProp l ''extension'') (JStr ''3dtiles'')) links of
        Inl e \<Rightarrow> (Inl e, n)
      | Inr tilesetUrl \<Rightarrow>
          (Inr (objLit ([(''id'', JStr (uuids E n)),
                         (''type'', JStr ''3dtiles''),
                         (''title'', getProp resource ''title''),
                         (''url'', parseDevHostname E (js_or tilesetUrl (JStr [])))]
                        @ spreadIf bbox [(''bbox'', bbox)]
                        @ [(''visibility'', JBool True),
                           (''extendedParams'', extendedParamsOf E resource)])),
           Suc n))"

definition layerArcgis :: "env \<Rightarrow> nat \<Rightarrow> json \<Rightarrow> json \<Rightarrow> json \<Rightarrow> (error + json) \<times> nat" where
  "layerArcgis E n resource links bbox =
     (case findLinkUrl (\<lambda>l. strict_eq (getProp l ''mime'') (JStr ''text/html'')
                              \<and> strict_eq (getProp l ''link_type'') (JStr ''image'')) links of
        Inl e \<Rightarrow> (Inl e, n)
      | Inr arcgisUrl \<Rightarrow>
          (bindE (if isImageServerUrl E arcgisUrl then Inr [(''queryable'', JBool False)]
                  else (case getProp resource ''alternate'' of
                          JStr s \<Rightarrow> Inr [(''name'', JStr (replaceFirst ''remoteWorkspace:'' [] s))]
                        | _ \<Rightarrow> Inl TypeError))
             (\<lambda>nameProps.
                Inr (objLit ([(''perms'', getProp resource ''perms''),
                              (''id'', JStr (uuids E n)),
                              (''pk'', getProp resource ''pk''),
                              (''type'', JStr ''arcgis'')]
                             @ nameProps
                             @ [(''url'', arcgisUrl)]
                             @ spreadIf bbox [(''bbox'', bbox)]
                             @ [(''title'', getProp resource ''title''),
                                (''visibility'', JBool True),
                                (''extendedParams'', extendedParamsOf E resource)]))),
           Suc n))"

text \<open>\<open>wmsUrl && url.parse(wmsUrl, true).query\<close>; \<open>url.parse\<close> accepts a string only.\<close>

definition wmsParams :: "env \<Rightarrow> json \<Rightarrow> error + json" where
  "wmsParams E wmsUrl =
     (if truthy wmsUrl
      then (case wmsUrl of JStr s \<Rightarrow> Inr (urlParseQuery E s) | _ \<Rightarrow> Inl TypeError)
      else Inr wmsUrl)"

text \<open>\<open>...(sourcetype === REMOTE && !wmsUrl.includes('/geoserver/') && { serverType })\<close>.\<close>

definition serverTypeProps :: "env \<Rightarrow> json \<Rightarrow> json \<Rightarrow> error + (string \<times> json) list" where
  "serverTypeProps E sourcetype wmsUrl =
     (if strict_eq sourcetype (JStr SOURCE_TYPES_REMOTE)
      then bindE (jsIncludes wmsUrl ''/geoserver/'')
             (\<lambda>b. Inr (if \<not> b then [(''serverType'', NO_VENDOR E)] else []))
      else Inr [])"

text \<open>The properties of the object literal of the default (WMS) branch, in order.\<close>

definition wmsLayerProps ::
  "env \<Rightarrow> nat \<Rightarrow> json \<Rightarrow> json \<Rightarrow> json \<Rightarrow> json \<Rightarrow> json list \<Rightarrow> json \<Rightarrow> json list
     \<Rightarrow> (string \<times> json) list \<Rightarrow> (string \<times> json) list" where
  "wmsLayerProps E n resource bbox wfsUrl wmsUrl dimensions params attrFields serverType =
     (let settings = js_or (geoNodeSettings E) (JObj []);
          defaultLayerFormat = withDefault (getProp settings ''defaultLayerFormat'') (JStr ''image/png'');
          defaultTileSize = withDefault (getProp settings ''defaultTileSize'') (JNum 512);
          template = getProp resource ''featureinfo_custom_template'';
          defaultStyleParams = defaultStyleParamsOf E (getProp resource ''default_style'')
      in [(''perms'', getProp resource ''perms''),
          (''id'', JStr (uuids E n)),
          (''pk'', getProp resource ''pk''),
          (''type'', JStr ''wms''),
          (''name'', getProp resource ''alternate''),
          (''url'', js_or wmsUrl (JStr [])),
          (''format'', defaultLayerFormat)]
         @ spreadIf wfsUrl [(''search'', JObj [(''type'', JStr ''wfs''), (''url'', wfsUrl)])]
         @ (if truthy bbox then [(''bbox'', bbox)] else [(''bboxError'', JBool True)])
         @ spreadIf template
             [(''featureInfo'', JObj [(''format'', JStr FEATURE_INFO_FORMAT), (''template'', template)])]
         @ [(''style'', js_or (qdot (qdot defaultStyleParams ''defaultStyle'') ''name'') (JStr [])),
            (''title'', getProp resource ''title''),
            (''tileSize'', defaultTileSize),
            (''visibility'', JBool True)]
         @ spreadIf params [(''params'', params)]
         @ (if length dimensions > 0 then [(''dimensions'', JArr dimensions)] else [])
         @ [(''extendedParams'', extendedParamsOf E resource)]
         @ spreadIf (JArr attrFields) [(''fields'', JArr attrFields)]
         @ serverType
         @ spread (getProp resource ''data''))"

definition layerWms :: "env \<Rightarrow> nat \<Rightarrow> json \<Rightarrow> json \<Rightarrow> json \<Rightarrow> (error + json) \<times> nat" where
  "layerWms E n resource links bbox =
     (case
        bindE (findLinkUrl (linkTypeIs ''OGC:WFS'') links) (\<lambda>wfsUrl.
        bindE (findLinkUrl (linkTypeIs ''OGC:WMS'') links) (\<lambda>wmsUrl.
        bindE (getDimensions resource) (\<lambda>dimensions.
        bindE (wmsParams E wmsUrl) (\<lambda>params.
        bindE (datasetAttributeSetToFields resource) (\<lambda>attrFields.
          Inr (wfsUrl, wmsUrl, dimensions, params, attrFields))))))
      of
        Inl e \<Rightarrow> (Inl e, n)
      | Inr (wfsUrl, wmsUrl, dimensions, params, attrFields) \<Rightarrow>
          (bindE (serverTypeProps E (getProp resource ''sourcetype'') wmsUrl) (\<lambda>serverType.
             Inr (objLit (wmsLayerProps E n resource bbox wfsUrl wmsUrl dimensions params
                            attrFields serverType))),
           Suc n))"

definition resourceToLayerConfig :: "env \<Rightarrow> nat \<Rightarrow> json \<Rightarrow> (error + json) \<times> nat" where
  "resourceToLayerConfig E n resource =
     (if nullish resource then (Inl TypeError, n)
      else
        (case getExtentFromResource E resource of
           Inl e \<Rightarrow> (Inl e, n)
         | Inr bbox \<Rightarrow>
             (let links = withDefault (getProp resource ''links'') (JArr []) in
              if strict_eq (getProp resource ''subtype'') (JStr ''3dtiles'')
              then layer3dtiles E n resource links bbox
              else if strict_eq (getProp resource ''ptype'') (JStr GXP_PTYPES_REST_MAP)
                      \<or> strict_eq (getProp resource ''ptype'') (JStr GXP_PTYPES_REST_IMG)
              then layerArcgis E n resource links bbox
              else layerWms E n resource links bbox)))"

section \<open>Between the map configuration and the map layers of a resource\<close>

text \<open>\<open>cfg?.map?.layers || []\<close>.\<close>

definition layersOf :: "json \<Rightarrow> json" where
  "layersOf cfg = js_or (qdot (qdot cfg ''map'') ''layers'') (JArr [])"

text \<open>\<open>layer?.extendedParams?.mapLayer\<close>.\<close>

definition mapLayerOf :: "json \<Rightarrow> json" where
  "mapLayerOf layer = qdot (qdot layer ''extendedParams'') ''mapLayer''"

text \<open>The callback of \<open>.map((layer, index) => ...)\<close> in \<open>getGeoNodeMapLayers\<close>. It runs on
  the layers that passed the filter, which are not \<open>null\<close>.\<close>

definition geoNodeMapLayer :: "nat \<Rightarrow> json \<Rightarrow> json" where
  "geoNodeMapLayer index layer =
     objLit (spreadIf (mapLayerOf layer)
               [(''pk'', getProp (getProp (getProp layer ''extendedParams'') ''mapLayer'') ''pk'')]
             @ [(''current_style'', js_or (getProp layer ''style'') (JStr [])),
                (''extra_params'', JObj [(''msId'', getProp layer ''id'')])]
             @ spreadIf (JBool (strict_eq (getProp layer ''type'') (JStr ''wms'')))
                 [(''current_style'', js_or (getProp layer ''style'') (JStr []))]
             @ [(''name'', js_or (getProp layer ''name'') (JStr [])),
                (''order'', JNum (real index)),
                (''opacity'', js_coalesce (getProp layer ''opacity'') (JNum 1)),
                (''visibility'', getProp layer ''visibility'')])"

definition getGeoNodeMapLayers :: "json \<Rightarrow> error + json list" where
  "getGeoNodeMapLayers data =
     bindE (asArray (layersOf data)) (\<lambda>ls.
       Inr (map (\<lambda>(index, layer). geoNodeMapLayer index layer)
              (enumerate 0 (filter (\<lambda>layer. truthy (mapLayerOf layer)) ls))))"

definition toGeoNodeMapConfig :: "json \<Rightarrow> error + json" where
  "toGeoNodeMapConfig data =
     (if \<not> truthy data then Inr (JObj [])
      else bindE (getGeoNodeMapLayers data) (\<lambda>maplayers. Inr (JObj [(''maplayers'', JArr maplayers)])))"

definition compareBackgroundLayers :: "json \<Rightarrow> json \<Rightarrow> error + bool" where
  "compareBackgroundLayers aLayer bLayer =
     (if nullish aLayer \<or> nullish bLayer then Inl TypeError
      else Inr (strict_eq (getProp aLayer ''type'') (getProp bLayer ''type'')
                \<and> strict_eq (getProp aLayer ''name'') (getProp bLayer ''name'')
                \<and> strict_eq (getProp aLayer ''source'') (getProp bLayer ''source'')
                \<and> strict_eq (getProp aLayer ''provider'') (getProp bLayer ''provider'')
                \<and> strict_eq (getProp aLayer ''url'') (getProp bLayer ''url'')))"

text \<open>\<open>layer => layer.group === 'background'\<close> and \<open>layer => layer.group !== 'background'\<close>.\<close>

definition isBackground :: "json \<Rightarrow> error + bool" where
  "isBackground layer = bindE (dot layer ''group'') (\<lambda>g. Inr (strict_eq g (JStr ''background'')))"

definition isNotBackground :: "json \<Rightarrow> error + bool" where
  "isNotBackground layer = bindE (dot layer ''group'') (\<lambda>g. Inr (\<not> strict_eq g (JStr ''background'')))"

text \<open>\<open>xs.map(f)\<close> with a callback that can raise.\<close>

fun mapE :: "('a \<Rightarrow> error + 'b) \<Rightarrow> 'a list \<Rightarrow> error + 'b list" where
  "mapE f [] = Inr []"
| "mapE f (x # xs) = bindE (f x) (\<lambda>y. bindE (mapE f xs) (\<lambda>ys. Inr (y # ys)))"

text \<open>\<open>mLayer => layer.id !== undefined && mLayer?.extra_params?.msId === layer.id\<close>.\<close>

definition matchesLayer :: "json \<Rightarrow> json \<Rightarrow> bool" where
  "matchesLayer layer mLayer =
     (getProp layer ''id'' \<noteq> JUndefined
      \<and> strict_eq (qdot (qdot mLayer ''extra_params'') ''msId'') (getProp layer ''id''))"

text \<open>The value of \<open>xs.find(p)\<close> for a callback that cannot raise.\<close>

definition findOrUndefined :: "(json \<Rightarrow> bool) \<Rightarrow> json list \<Rightarrow> json" where
  "findOrUndefined p xs = (case List.find p xs of None \<Rightarrow> JUndefined | Some x \<Rightarrow> x)"

text \<open>The callback of \<open>.map((layer) => ...)\<close> over the non-background layers of the map, for
  the array \<open>ms\<close> of map layers: it attaches the entry found for the layer, drops (as
  \<open>null\<close>) a layer that had an entry and has none now, and keeps any other layer.\<close>

definition attachedLayer :: "json list \<Rightarrow> json \<Rightarrow> json" where
  "attachedLayer ms layer =
     (let mapLayer = findOrUndefined (matchesLayer layer) ms in
      if truthy mapLayer
      then objLit (spread layer
                   @ spreadIf (JBool (strict_eq (getProp layer ''type'') (JStr ''wms'')))
                       [(''style'', js_or (js_or (getProp mapLayer ''current_style'')
                                                 (getProp layer ''style''))
                                          (JStr []))]
                   @ [(''extendedParams'',
                       objLit (spread (getProp layer ''extendedParams'')
                               @ [(''mapLayer'', mapLayer)]))])
      else if truthy (mapLayerOf layer) then JNull
      else layer)"

text \<open>The same callback on \<open>maplayers\<close> as the resource has it: \<open>maplayers.find\<close> raises
  unless it is an array.\<close>

definition attachMapLayer :: "json \<Rightarrow> json \<Rightarrow> error + json" where
  "attachMapLayer maplayers layer =
     bindE (asArray maplayers) (\<lambda>ms. Inr (attachedLayer ms layer))"

text \<open>\<open>.map(mLayer => resourceToLayerConfig(mLayer?.dataset))\<close>: the calls run in order, each
  drawing the next identifier.\<close>

fun datasetLayers :: "env \<Rightarrow> nat \<Rightarrow> json list \<Rightarrow> (error + json list) \<times> nat" where
  "datasetLayers E n [] = (Inr [], n)"
| "datasetLayers E n (m # ms) =
     (case resourceToLayerConfig E n (qdot m ''dataset'') of
        (Inl e, n') \<Rightarrow> (Inl e, n')
      | (Inr l, n') \<Rightarrow>
          (case datasetLayers E n' ms of
             (Inl e, n'') \<Rightarrow> (Inl e, n'')
           | (Inr ls, n'') \<Rightarrow> (Inr (l # ls), n'')))"

text \<open>The background layers of the base configuration; when a visible background layer of
  the map equals one of them, that one alone is made visible. The layers compared have
  passed \<open>layer.group === 'background'\<close>, so \<open>compareBackgroundLayers\<close> does not raise on
  them.\<close>

definition backgroundLayersOf :: "json list \<Rightarrow> json list \<Rightarrow> json list" where
  "backgroundLayersOf baseMapBackgroundLayers dataBackgroundLayers =
     (let currentBackgroundLayer =
            findOrUndefined
              (\<lambda>layer. truthy (getProp layer ''visibility'')
                 \<and> truthy (findOrUndefined (\<lambda>bLayer. compareBackgroundLayers layer bLayer = Inr True)
                             baseMapBackgroundLayers))
              dataBackgroundLayers
      in if \<not> truthy currentBackgroundLayer then baseMapBackgroundLayers
         else map (\<lambda>layer. objLit (spread layer
                     @ [(''visibility'',
                         JBool (compareBackgroundLayers layer currentBackgroundLayer = Inr True))]))
                baseMapBackgroundLayers)"

definition toMapStoreMapConfig :: "env \<Rightarrow> nat \<Rightarrow> json \<Rightarrow> json \<Rightarrow> (error + json) \<times> nat" where
  "toMapStoreMapConfig E n resource baseConfig =
     (let r = js_or resource (JObj []);
          maplayers = withDefault (getProp r ''maplayers'') (JArr []);
          data = getProp r ''data''
      in
      case
        bindE (asArray (layersOf baseConfig)) (\<lambda>baseLayers.
        bindE (filterE isBackground baseLayers) (\<lambda>baseMapBackgroundLayers.
        bindE (asArray (layersOf data)) (\<lambda>dataLayers.
        bindE (filterE isBackground dataLayers) (\<lambda>dataBackgroundLayers.
        bindE (filterE isNotBackground dataLayers) (\<lambda>otherLayers.
        bindE (mapE (attachMapLayer maplayers) otherLayers) (\<lambda>attached.
        bindE (asArray maplayers) (\<lambda>ms.
          Inr (backgroundLayersOf baseMapBackgroundLayers dataBackgroundLayers,
               filter truthy attached,
               filter (\<lambda>mLayer. \<not> truthy (findOrUndefined (\<lambda>layer. matchesLayer layer mLayer)
                                               (filter truthy attached)))
                 (filter (\<lambda>mLayer. truthy (qdot mLayer ''dataset'')) ms)))))))))
      of
        Inl e \<Rightarrow> (Inl e, n)
      | Inr (backgroundLayers, layers, missing) \<Rightarrow>
          (case datasetLayers E n missing of
             (Inl e, n') \<Rightarrow> (Inl e, n')
           | (Inr addMapLayers, n') \<Rightarrow>
               (Inr (objLit (spread data
                      @ [(''map'',
                          objLit (spread (qdot data ''map'')
                            @ [(''layers'', JArr (backgroundLayers @ layers @ addMapLayers)),
                               (''sources'',
                                objLit (spread (qdot (qdot data ''map'') ''sources'')
                                        @ spread (qdot (qdot baseConfig ''map'') ''sources'')))]))])),
                n')))"

section \<open>Upload lists\<close>

text \<open>
  lodash \<open>uniqBy(xs, key)\<close> keeps, in order, the first element for every value of the key
  (compared as \<open>===\<close> compares JSON values); lodash \<open>orderBy(xs, key, 'desc')\<close> sorts by the
  key, descending, keeping the input order among equal keys. Its comparison of two keys,
  \<open>compareAscending\<close>, places \<open>null\<close> after every defined value and \<open>undefined\<close> last.
  Strings compare by their characters' codes.
\<close>

fun uniqBySeen :: "(json \<Rightarrow> json) \<Rightarrow> json list \<Rightarrow> json list \<Rightarrow> json list" where
  "uniqBySeen f seen [] = []"
| "uniqBySeen f seen (x # xs) =
     (if list_ex (\<lambda>k. strict_eq k (f x)) seen then uniqBySeen f seen xs
      else x # uniqBySeen f (seen @ [f x]) xs)"






fun insertBy :: "('a \<Rightarrow> 'a \<Rightarrow> int) \<Rightarrow> 'a \<Rightarrow> 'a list \<Rightarrow> 'a list" where
  "insertBy cmp x [] = [x]"
| "insertBy cmp x (y # ys) = (if cmp x y \<le> 0 then x # y # ys else y # insertBy cmp x ys)"






text \<open>\<open>{...currentResponse, ...(!currentResponse.id && { create_date, id })}\<close>.\<close>

definition normalizeUpload :: "json \<Rightarrow> json" where
  "normalizeUpload currentResponse =
     objLit (spread currentResponse
             @ spreadIf (JBool (\<not> truthy (getProp currentResponse ''id'')))
                 [(''create_date'', getProp currentResponse ''created''),
                  (''id'', getProp currentResponse ''exec_id'')])"




section \<open>Saving a map or a document\<close>

text \<open>The requests of the backend API that \<open>SaveAPI\<close> makes for a map and for a document
  (\<open>updateMap\<close>, \<open>createMap\<close>, \<open>updateDocument\<close> are imported; a call is recorded with its
  arguments). The document entry returns \<open>false\<close> instead of a request when there is no id.\<close>

datatype apiRequest =
    UpdateMap json json
  | CreateMap json
  | UpdateDocument json json

datatype saveResult = Requested apiRequest | ReturnedFalse

definition parseMapBody :: "json \<Rightarrow> error + json" where
  "parseMapBody body =
     bindE (dot body ''data'') (\<lambda>data.
     bindE (toGeoNodeMapConfig data) (\<lambda>geoNodeMap.
       Inr (objLit (spread body @ spread geoNodeMap))))"

text \<open>\<open>SaveAPI[ResourceTypes.MAP]\<close> and \<open>SaveAPI[ResourceTypes.DOCUMENT]\<close>, as functions of
  \<open>id\<close> and \<open>body\<close> (neither reads its \<open>state\<close> argument).\<close>

definition SaveAPI_MAP :: "json \<Rightarrow> json \<Rightarrow> error + saveResult" where
  "SaveAPI_MAP ident body =
     (if truthy ident
      then bindE (parseMapBody body) (\<lambda>b.
             Inr (Requested (UpdateMap ident (objLit (spread b @ [(''id'', ident)])))))
      else bindE (parseMapBody body) (\<lambda>b. Inr (Requested (CreateMap b))))"

definition SaveAPI_DOCUMENT :: "json \<Rightarrow> json \<Rightarrow> saveResult" where
  "SaveAPI_DOCUMENT ident body =
     (if truthy ident then Requested (UpdateDocument ident body) else ReturnedFalse)"

section \<open>The download button\<close>

text \<open>The properties of the component that decide what it renders; a property left out is
  \<open>undefined\<close> and takes its default.\<close>

record downloadProps =
  p_resource :: json
  p_resourceData :: json
  p_variant :: json
  p_size :: json
  p_renderType :: json
  p_showIcon :: json
  p_downloadMsgId :: json
  p_allowedSources :: json
  p_downloading :: json

datatype component = ButtonWithTooltip | MenuItem | NoComponent

datatype child = IconGlyph string | MessageId json

text \<open>What the component returns: \<open>null\<close>, the link to the download URL, or the button that
  calls \<open>onAction\<close> (its click does nothing while \<open>downloading\<close>; otherwise it passes the
  resource to \<open>onAction\<close>).\<close>

datatype rendered =
    RenderedNull
  | DownloadLink component "(string \<times> json) list" child
  | DownloadAction component "(string \<times> json) list" "json option" child

definition RENDER_TYPE :: "json \<Rightarrow> component" where
  "RENDER_TYPE renderType =
     (if strict_eq renderType (JStr ''button'') then ButtonWithTooltip
      else if strict_eq renderType (JStr ''menuItem'') then MenuItem
      else NoComponent)"

text \<open>\<open>xs.includes(v)\<close> for any value \<open>v\<close>: membership in an array, substring of a string (of
  \<open>String(v)\<close>); no other value has the method.\<close>

fun includesValue :: "env \<Rightarrow> json \<Rightarrow> json \<Rightarrow> error + bool" where
  "includesValue E (JArr xs) v = Inr (list_ex (\<lambda>x. strict_eq x v) xs)"
| "includesValue E (JStr s) v = Inr (strIncludes s (toString E v))"
| "includesValue E r v = Inl TypeError"

text \<open>\<open>_resource?.perms?.includes('download_resourcebase')\<close>, read for its truthiness.\<close>

definition hasDownloadPerm :: "json \<Rightarrow> error + bool" where
  "hasDownloadPerm r =
     (if nullish (qdot r ''perms'') then Inr False
      else jsIncludes (qdot r ''perms'') ''download_resourcebase'')"

definition DownloadButton :: "env \<Rightarrow> downloadProps \<Rightarrow> error + rendered" where
  "DownloadButton E props =
     (let renderType = withDefault (p_renderType props) (JStr ''button'');
          downloadMsgId = withDefault (p_downloadMsgId props) (JStr ''gnviewer.download'');
          allowedSources = withDefault (p_allowedSources props)
                             (JArr [JStr SOURCE_TYPES_LOCAL, JStr SOURCE_TYPES_REMOTE]);
          Component = RENDER_TYPE renderType;
          isButton = (\<not> strict_eq renderType (JStr ''menuItem''));
          resource = js_coalesce (p_resource props) (p_resourceData props)
      in
        bindE (getDownloadUrlInfo resource) (\<lambda>downloadInfo.
          let isExternal = isDocumentExternalSource resource;
              isNotAjaxSafe = (\<not> truthy (qdot downloadInfo ''ajaxSafe''))
          in
            bindE (hasDownloadPerm resource) (\<lambda>hasPerm.
              if \<not> hasPerm then Inr RenderedNull
              else if \<not> isButton \<and> isNotAjaxSafe then Inr RenderedNull
              else if list_ex (\<lambda>x. strict_eq x (qdot resource ''ptype''))
                        [JStr GXP_PTYPES_REST_MAP, JStr GXP_PTYPES_REST_IMG]
              then Inr RenderedNull
              else
                bindE (includesValue E allowedSources (qdot resource ''sourcetype'')) (\<lambda>allowed.
                  if \<not> allowed then Inr RenderedNull
                  else if isNotAjaxSafe
                  then (if truthy (getProp downloadInfo ''url'')
                        then Inr (DownloadLink Component
                                    ((if isButton then [(''variant'', p_variant props), (''size'', p_size props)] else [])
                                     @ spreadIf (p_showIcon props) [(''tooltipId'', downloadMsgId)]
                                     @ [(''download'', JBool True),
                                        (''href'', getProp downloadInfo ''url''),
                                        (''target'', JStr ''_blank''),
                                        (''rel'', JStr ''noopener noreferrer'')])
                                    (if truthy (p_showIcon props)
                                     then IconGlyph (if truthy isExternal then ''external-link'' else ''download'')
                                     else MessageId downloadMsgId))
                        else Inr RenderedNull)
                  else Inr (DownloadAction Component
                              ([(''disabled'', JBool (truthy (p_downloading props)))]
                               @ (if isButton then [(''variant'', p_variant props), (''size'', p_size props)] else [])
                               @ spreadIf (p_showIcon props) [(''tooltipId'', downloadMsgId)])
                              (if truthy (p_downloading props) then None else Some resource)
                              (if truthy (p_showIcon props) then IconGlyph ''download''
                               else MessageId downloadMsgId))))))"

section \<open>The direct-save epic\<close>

text \<open>
  \<open>gnSaveDirectContent\<close> answers one \<open>SAVE_DIRECT_CONTENT\<close> action. What it reads from the
  store are values of selectors it imports: \<open>mapInfoSelector\<close>, \<open>getResourceId\<close>, the
  \<open>geoLimits\<close> of \<open>getPermissionsPayload\<close>, \<open>getResourceName\<close> and
  \<open>getResourceDescription\<close>. The requests go through imported API functions, each of which
  starts its HTTP request when it is called and returns a promise. The run is the
  sequence of what happens: a request starts, the promise of the request at a position
  of the array settles, the epic dispatches an action, or its stream ends in an error.
\<close>

record saveState =
  sel_mapInfo :: json
  sel_resourceId :: json
  sel_geoLimits :: json
  sel_resourceName :: json
  sel_resourceDescription :: json

datatype request =
    GetResourceByPk json
  | DeleteGeoLimits json json json
  | UpdateGeoLimits json json json json

datatype settlement = Fulfilled json | Rejected json

datatype action =
    SavingResource
  | SaveContent json json json json
  | ResetGeoLimits
  | SaveError json
  | ErrorNotification json

datatype event = Started request | Settled nat settlement | Dispatched action | StreamError

definition resourceIdOf :: "saveState \<Rightarrow> json" where
  "resourceIdOf st = js_or (qdot (sel_mapInfo st) ''id'') (sel_resourceId st)"

text \<open>The callback of \<open>geoLimits.map\<close>: which request it starts.\<close>

definition geoLimitRequest :: "json \<Rightarrow> json \<Rightarrow> error + request" where
  "geoLimitRequest resourceId limits =
     bindE (dot limits ''features'') (\<lambda>features.
     bindE (dot features ''length'') (\<lambda>len.
       if strict_eq len (JNum 0)
       then Inr (DeleteGeoLimits resourceId (getProp limits ''id'') (getProp limits ''type''))
       else Inr (UpdateGeoLimits resourceId (getProp limits ''id'') (getProp limits ''type'')
                   (JObj [(''features'', getProp limits ''features'')]))))"

text \<open>The requests started, in order, while the array given to \<open>axios.all\<close> is built, and
  whether building it raised (the requests started before that stay started).\<close>

fun startGeoLimits :: "json \<Rightarrow> json list \<Rightarrow> request list \<times> bool" where
  "startGeoLimits resourceId [] = ([], False)"
| "startGeoLimits resourceId (l # ls) =
     (case geoLimitRequest resourceId l of
        Inl e \<Rightarrow> ([], True)
      | Inr r \<Rightarrow> (case startGeoLimits resourceId ls of (rs, raised) \<Rightarrow> (r # rs, raised)))"

definition limitsOf :: "saveState \<Rightarrow> json list" where
  "limitsOf st = (case sel_geoLimits st of JArr ls \<Rightarrow> ls | _ \<Rightarrow> [])"

definition startRequests :: "saveState \<Rightarrow> request list \<times> bool" where
  "startRequests st =
     (if truthy (sel_geoLimits st)
      then (case asArray (sel_geoLimits st) of
              Inl e \<Rightarrow> ([GetResourceByPk (resourceIdOf st)], True)
            | Inr ls \<Rightarrow>
                (case startGeoLimits (resourceIdOf st) ls of
                   (rs, raised) \<Rightarrow> (GetResourceByPk (resourceIdOf st) # rs, raised)))
      else ([GetResourceByPk (resourceIdOf st)], False))"

text \<open>\<open>.catch(() => ({ error: true, resourceId, limits }))\<close> on a geo-limits call: the value
  its promise is fulfilled with.\<close>

definition geoLimitsResponse :: "json \<Rightarrow> json \<Rightarrow> settlement \<Rightarrow> json" where
  "geoLimitsResponse resourceId limits s =
     (case s of
        Fulfilled v \<Rightarrow> v
      | Rejected x \<Rightarrow> JObj [(''error'', JBool True), (''resourceId'', resourceId), (''limits'', limits)])"

text \<open>The function given to \<open>switchMap\<close>, on the values of \<open>axios.all\<close>.\<close>

definition onResponses :: "saveState \<Rightarrow> json \<Rightarrow> json list \<Rightarrow> error + action list" where
  "onResponses st resource geoLimitsResponses =
     bindE (filterE (\<lambda>r. bindE (dot r ''error'') (\<lambda>e. Inr (truthy e))) geoLimitsResponses)
       (\<lambda>geoLimitsErrors.
          let name = sel_resourceName st;
              description = sel_resourceDescription st;
              metadata = JObj [(''name'', if truthy name then name else qdot resource ''title''),
                               (''description'',
                                if truthy description then description else qdot resource ''abstract''),
                               (''extension'', qdot resource ''extension''),
                               (''href'', qdot resource ''href'')]
          in Inr [SaveContent (resourceIdOf st) metadata (JBool False)
                    (if length geoLimitsErrors > 0
                     then JObj [(''title'', JStr ''gnviewer.warningGeoLimitsSaveTitle''),
                                (''message'', JStr ''gnviewer.warningGeoLimitsSaveMessage'')]
                     else JBool True),
                  ResetGeoLimits])"

text \<open>The function given to \<open>.catch\<close>, and what the stream does with an error: the two
  actions, or an error of the stream itself when the handler raises.\<close>

definition onError :: "json \<Rightarrow> error + action list" where
  "onError err =
     bindE (dot err ''data'') (\<lambda>d.
       Inr [SaveError (js_or d (getProp err ''message'')),
            ErrorNotification
              (JObj [(''title'', JStr ''map.mapError.errorTitle''),
                     (''message'',
                      js_or (js_or (qdot (qdot err ''data'') ''detail'') (qdot err ''message''))
                            (JStr ''map.mapError.errorDefault''))])])"

definition caught :: "json \<Rightarrow> event list" where
  "caught err = (case onError err of Inl e \<Rightarrow> [StreamError] | Inr acts \<Rightarrow> map Dispatched acts)"

text \<open>A \<open>TypeError\<close> raised by the code, as the handler sees it: an object with a message
  (the text is the runtime's).\<close>

definition thrown :: "string \<Rightarrow> json" where
  "thrown msg = JObj [(''message'', JStr msg)]"

text \<open>The values that \<open>axios.all\<close> resolves with, once every position has settled and the
  first is fulfilled.\<close>

definition settlementOf :: "(nat \<times> settlement) list \<Rightarrow> nat \<Rightarrow> settlement" where
  "settlementOf seen i = (case map_of seen i of None \<Rightarrow> Rejected JUndefined | Some s \<Rightarrow> s)"

definition allResponses :: "saveState \<Rightarrow> (nat \<times> settlement) list \<Rightarrow> json list" where
  "allResponses st seen =
     map (\<lambda>(i, limits). geoLimitsResponse (resourceIdOf st) limits (settlementOf seen (Suc i)))
       (enumerate 0 (limitsOf st))"

text \<open>
  Waiting for \<open>axios.all\<close>. The promises settle in the order the network decides:
  \<open>arrivals\<close> lists the positions with their settlements; a position outside the array or
  already settled is ignored. \<open>len\<close> is the length of the array, \<open>seen\<close> what has settled,
  \<open>decided\<close> whether \<open>axios.all\<close> is settled. It is rejected as soon as the resource fetch
  is (the geo-limits promises are never rejected, by their \<open>.catch\<close>), and fulfilled when
  every position is.
\<close>

fun await :: "saveState \<Rightarrow> string \<Rightarrow> nat \<Rightarrow> (nat \<times> settlement) list \<Rightarrow> bool
                \<Rightarrow> (nat \<times> settlement) list \<Rightarrow> event list" where
  "await st msg len seen decided [] = []"
| "await st msg len seen decided ((i, s) # rest) =
     (if len \<le> i \<or> map_of seen i \<noteq> None then await st msg len seen decided rest
      else
        Settled i s #
        (if decided then await st msg len (seen @ [(i, s)]) True rest
         else if i = 0 \<and> (case s of Rejected err \<Rightarrow> True | Fulfilled v \<Rightarrow> False)
         then caught (case s of Rejected err \<Rightarrow> err | Fulfilled v \<Rightarrow> v)
              @ await st msg len (seen @ [(i, s)]) True rest
         else if list_all (\<lambda>j. map_of (seen @ [(i, s)]) j \<noteq> None) [0..<len]
         then (case settlementOf (seen @ [(i, s)]) 0 of
                 Fulfilled resource \<Rightarrow>
                   (case onResponses st resource (allResponses st (seen @ [(i, s)])) of
                      Inl e \<Rightarrow> caught (thrown msg)
                    | Inr acts \<Rightarrow> map Dispatched acts)
               | Rejected err \<Rightarrow> caught err)
              @ await st msg len (seen @ [(i, s)]) True rest
         else await st msg len (seen @ [(i, s)]) False rest))"

text \<open>\<open>startWith(savingResource())\<close> comes first, then the array is built, which starts the
  requests; if building it raised, the error is handled at once and the requests started
  settle unobserved.\<close>

definition gnSaveDirectContent :: "saveState \<Rightarrow> string \<Rightarrow> (nat \<times> settlement) list \<Rightarrow> event list" where
  "gnSaveDirectContent st msg arrivals =
     Dispatched SavingResource #
     (case startRequests st of
        (rs, raised) \<Rightarrow>
          map Started rs
          @ (if raised then caught (thrown msg) @ await st msg (length rs) [] True arrivals
             else await st msg (length rs) [] False arrivals))"



text \<open>The actions a run dispatches, in order.\<close>

fun dispatchedActions :: "event list \<Rightarrow> action list" where
  "dispatchedActions [] = []"
| "dispatchedActions (Dispatched a # tr) = a # dispatchedActions tr"
| "dispatchedActions (e # tr) = dispatchedActions tr"

text \<open>A store for concrete runs: resource 7, with one geo limit to delete (no features) and
  one to update; and settlements for its three requests, the update being rejected.\<close>

definition sampleSaveState :: saveState where
  "sampleSaveState =
     \<lparr>sel_mapInfo = JUndefined, sel_resourceId = JNum 7,
      sel_geoLimits =
        JArr [JObj [(''id'', JNum 3), (''type'', JStr ''user''), (''features'', JArr [])],
              JObj [(''id'', JNum 4), (''type'', JStr ''group''), (''features'', JArr [JStr ''f''])]],
      sel_resourceName = JStr ''name'', sel_resourceDescription = JUndefined\<rparr>"

definition sampleArrivals :: "(nat \<times> settlement) list" where
  "sampleArrivals =
     [(0, Fulfilled (JObj [(''title'', JStr ''t'')])), (2, Rejected JNull),
      (1, Fulfilled (JObj []))]"

section \<open>The compact catalog\<close>

text \<open>
  The state of \<open>ResourcesCompactCatalog\<close> (its \<open>useState\<close> cells). A render closes over
  the state it is given; the effects of a render run after it, in the order they are
  declared, each when one of its dependencies differs from the previous render; the state
  setters they call take effect at the next render. What an effect does is the list of
  its commands: state updates, and the call of \<open>request\<close> with the query, the page, and the
  \<open>entries\<close> its continuation closes over.
\<close>

record 'e catalog =
  c_entries :: "'e list"
  c_loading :: bool
  c_page :: nat
  c_isNextPageAvailable :: bool
  c_q :: string

datatype 'e command =
    SetEntries "'e list"
  | SetLoading bool
  | SetPage nat
  | SetIsNextPageAvailable bool
  | ScrollToTop
  | Request string nat "'e list"

text \<open>\<open>updateRequest.current(options)\<close> in a render with state \<open>c\<close>; \<open>hasRequest\<close> tells
  whether the \<open>request\<close> property is set, \<open>hasContainer\<close> whether the scroll container is
  mounted; \<open>options\<close> is \<open>(page, reset)\<close>.\<close>

definition updateRequest :: "bool \<Rightarrow> bool \<Rightarrow> 'e catalog \<Rightarrow> nat \<times> bool \<Rightarrow> 'e command list" where
  "updateRequest hasRequest hasContainer c options =
     (if \<not> c_loading c \<and> hasRequest
      then (if hasContainer \<and> snd options then [ScrollToTop] else [])
           @ [SetLoading True, Request (c_q c) (fst options) (c_entries c)]
      else [])"


definition onRejected :: "bool \<Rightarrow> 'e command list" where
  "onRejected isMounted = (if isMounted then [SetLoading False] else [])"

text \<open>The effect on \<open>[page]\<close> and the effect on \<open>[q]\<close>.\<close>

definition pageEffect :: "bool \<Rightarrow> bool \<Rightarrow> 'e catalog \<Rightarrow> 'e command list" where
  "pageEffect hasRequest hasContainer c =
     (if c_page c > 1 then updateRequest hasRequest hasContainer c (c_page c, False) else [])"

definition qEffect :: "bool \<Rightarrow> bool \<Rightarrow> 'e catalog \<Rightarrow> 'e command list" where
  "qEffect hasRequest hasContainer c =
     SetPage 1 # updateRequest hasRequest hasContainer c (1, True)"

fun applyCommand :: "'e command \<Rightarrow> 'e catalog \<Rightarrow> 'e catalog" where
  "applyCommand (SetEntries es) c = c\<lparr>c_entries := es\<rparr>"
| "applyCommand (SetLoading b) c = c\<lparr>c_loading := b\<rparr>"
| "applyCommand (SetPage n) c = c\<lparr>c_page := n\<rparr>"
| "applyCommand (SetIsNextPageAvailable b) c = c\<lparr>c_isNextPageAvailable := b\<rparr>"
| "applyCommand ScrollToTop c = c"
| "applyCommand (Request qs n es) c = c"

fun isRequest :: "'e command \<Rightarrow> bool" where
  "isRequest (Request qs n es) = True"
| "isRequest cmd = False"

text \<open>The effects that run after the render of \<open>cur\<close> that follows the render of \<open>prev\<close>,
  the state they leave for the next render, and the requests they made.\<close>

definition effectsAfter :: "bool \<Rightarrow> bool \<Rightarrow> 'e catalog \<Rightarrow> 'e catalog \<Rightarrow> 'e command list" where
  "effectsAfter hasRequest hasContainer prev cur =
     (if c_page cur \<noteq> c_page prev then pageEffect hasRequest hasContainer cur else [])
     @ (if c_q cur \<noteq> c_q prev then qEffect hasRequest hasContainer cur else [])"

definition commit :: "bool \<Rightarrow> bool \<Rightarrow> 'e catalog \<Rightarrow> 'e catalog \<Rightarrow> 'e catalog \<times> 'e command list" where
  "commit hasRequest hasContainer prev cur =
     (let cmds = effectsAfter hasRequest hasContainer prev cur
      in (fold applyCommand cmds cur, filter isRequest cmds))"





section \<open>Reading results\<close>

text \<open>Whether an object has an own property, and an object without one of its
  properties; used to state what a result carries.\<close>

definition hasOwnProp :: "json \<Rightarrow> string \<Rightarrow> bool" where
  "hasOwnProp v k = (case v of JObj kv \<Rightarrow> map_of kv k \<noteq> None | _ \<Rightarrow> False)"

definition dropProp :: "string \<Rightarrow> json \<Rightarrow> json" where
  "dropProp k v = (case v of JObj kv \<Rightarrow> JObj (AList.delete k kv) | _ \<Rightarrow> v)"

text \<open>The value an object literal holds for a key is the last one assigned to it.\<close>

definition lastAssigned :: "(string \<times> json) list \<Rightarrow> string \<Rightarrow> json option" where
  "lastAssigned ps k = map_of (rev ps) k"

text \<open>An environment for concrete runs: \<open>uuid()\<close> returns \<open>0\<close>, \<open>1\<close>, ... in turn, no
  settings are configured, URLs are left as they are and have an empty query.\<close>

definition sampleEnv :: env where
  "sampleEnv =
     \<lparr>uuids = showNat, geoNodeSettings = JUndefined, parseDevHostname = (\<lambda>u. u),
      isImageServerUrl = (\<lambda>u. False), urlParseQuery = (\<lambda>s. JObj []),
      NO_VENDOR = JStr ''no-vendor'', stringToNumber = (\<lambda>s. None),
      numberToString = (\<lambda>r. ''0'')\<rparr>"

text \<open>The properties of a download button for a resource and a render type, every other
  property left out.\<close>

definition sampleProps :: "json \<Rightarrow> json \<Rightarrow> downloadProps" where
  "sampleProps resource renderType =
     \<lparr>p_resource = resource, p_resourceData = JUndefined, p_variant = JUndefined,
      p_size = JUndefined, p_renderType = renderType, p_showIcon = JUndefined,
      p_downloadMsgId = JUndefined, p_allowedSources = JUndefined, p_downloading = JUndefined\<rparr>"

text \<open>A dataset for concrete runs, and the layer \<open>resourceToLayerConfig\<close> makes of it under
  \<open>sampleEnv\<close>, as a function of the identifier drawn.\<close>

definition sampleDataset :: json where
  "sampleDataset =
     JObj [(''pk'', JNum 5), (''alternate'', JStr ''geonode:roads''), (''title'', JStr ''Roads''),
           (''perms'', JArr [JStr ''view_resourcebase'']),
           (''extent'', JObj [(''coords'', JArr [JNum 0, JNum 0, JNum 1, JNum 1])]),
           (''data'', JObj [(''opacity'', JNum 1)])]"

definition sampleDatasetLayer :: "string \<Rightarrow> json" where
  "sampleDatasetLayer ident =
     JObj [(''perms'', JArr [JStr ''view_resourcebase'']), (''id'', JStr ident),
           (''pk'', JNum 5), (''type'', JStr ''wms''), (''name'', JStr ''geonode:roads''),
           (''url'', JStr []), (''format'', JStr ''image/png''),
           (''bbox'',
            JObj [(''crs'', JStr ''EPSG:4326''),
                  (''bounds'',
                   JObj [(''minx'', JNum 0), (''miny'', JNum 0), (''maxx'', JNum 1),
                         (''maxy'', JNum 1)])]),
           (''style'', JStr []), (''title'', JStr ''Roads''), (''tileSize'', JNum 512),
           (''visibility'', JBool True),
           (''extendedParams'',
            JObj [(''pk'', JNum 5), (''mapLayer'', JObj [(''dataset'', sampleDataset)])]),
           (''fields'', JArr []), (''opacity'', JNum 1)]"


section \<open>Properties: the download target\<close>

lemma findWhere_find:
  "\<forall>x \<in> set xs. \<not> nullish x \<Longrightarrow> findWhere p xs = Inr (findOrUndefined p xs)"
  by (induction xs) (auto simp: findOrUndefined_def)

lemma default_not_empty: "truthy (getProp d ''default'') \<Longrightarrow> \<not> isEmpty d"
  by (cases d) (auto simp: ownProp_def)

lemma find_Some_holds: "List.find p xs = Some x \<Longrightarrow> p x"
  by (induction xs) (auto split: if_splits)

text \<open>
  Claim C9, as the code has it. \<open>getDownloadUrlInfo\<close> resolves the download target in a
  fixed order: an external-source document gets \<open>{ url: href, ajaxSafe: false }\<close> whatever
  its \<open>download_urls\<close>; otherwise a list of exactly one entry gives that entry's \<open>url\<close> and
  \<open>ajax_safe\<close> when the entry is not empty, and falls back to the \<open>href\<close> when it is; a
  list of two or more entries gives the first entry whose \<open>default\<close> is truthy, and falls
  back to the \<open>href\<close> when none is.
\<close>

theorem getDownloadUrlInfo_precedence:
  "(truthy (isDocumentExternalSource r) \<longrightarrow> getDownloadUrlInfo r = Inr (hrefUrl r))
   \<and> (\<not> truthy (isDocumentExternalSource r) \<and> qdot r ''download_urls'' = JArr [d] \<longrightarrow>
        getDownloadUrlInfo r = Inr (if isEmpty d then hrefUrl r else downloadUrlOf d))
   \<and> (\<not> truthy (isDocumentExternalSource r) \<and> qdot r ''download_urls'' = JArr ds
        \<and> 2 \<le> length ds \<and> (\<forall>x \<in> set ds. \<not> nullish x) \<longrightarrow>
        getDownloadUrlInfo r =
          Inr (case List.find (\<lambda>x. truthy (getProp x ''default'')) ds of
                 Some x \<Rightarrow> downloadUrlOf x
               | None \<Rightarrow> hrefUrl r))"
proof (intro conjI impI)
  assume "truthy (isDocumentExternalSource r)"
  then show "getDownloadUrlInfo r = Inr (hrefUrl r)"
    by (simp add: getDownloadUrlInfo_def)
next
  assume a: "\<not> truthy (isDocumentExternalSource r) \<and> qdot r ''download_urls'' = JArr [d]"
  then have g: "getProp r ''download_urls'' = JArr [d]"
    by (auto simp: qdot_def split: if_splits)
  from a g show "getDownloadUrlInfo r = Inr (if isEmpty d then hrefUrl r else downloadUrlOf d)"
    by (simp add: getDownloadUrlInfo_def)
next
  assume a: "\<not> truthy (isDocumentExternalSource r) \<and> qdot r ''download_urls'' = JArr ds
        \<and> 2 \<le> length ds \<and> (\<forall>x \<in> set ds. \<not> nullish x)"
  then have g: "getProp r ''download_urls'' = JArr ds"
    by (auto simp: qdot_def split: if_splits)
  from a have ne: "ds \<noteq> []" and l1: "length ds \<noteq> 1" by auto
  from a have fw: "findWhere (\<lambda>x. truthy (getProp x ''default'')) ds
                   = Inr (findOrUndefined (\<lambda>x. truthy (getProp x ''default'')) ds)"
    by (intro findWhere_find) simp
  show "getDownloadUrlInfo r =
          Inr (case List.find (\<lambda>x. truthy (getProp x ''default'')) ds of
                 Some x \<Rightarrow> downloadUrlOf x
               | None \<Rightarrow> hrefUrl r)"
  proof (cases "List.find (\<lambda>x. truthy (getProp x ''default'')) ds")
    case None
    with a g ne l1 fw show ?thesis
      by (simp add: getDownloadUrlInfo_def findOrUndefined_def)
  next
    case (Some x)
    then have "\<not> isEmpty x" using find_Some_holds default_not_empty by fast
    with Some a g ne l1 fw show ?thesis
      by (simp add: getDownloadUrlInfo_def findOrUndefined_def)
  qed
qed

text \<open>The four cases at concrete resources.\<close>

theorem getDownloadUrlInfo_precedence_witness:
  "getDownloadUrlInfo (JObj [(''resource_type'', JStr ''document''), (''sourcetype'', JStr ''REMOTE''),
                             (''href'', JStr ''h''), (''download_urls'', JArr [JObj [(''url'', JStr ''u'')]])])
     = Inr (JObj [(''url'', JStr ''h''), (''ajaxSafe'', JBool False)])
   \<and> getDownloadUrlInfo (JObj [(''href'', JStr ''h''),
                               (''download_urls'', JArr [JObj [(''url'', JStr ''u''), (''ajax_safe'', JBool True)]])])
     = Inr (JObj [(''url'', JStr ''u''), (''ajaxSafe'', JBool True)])
   \<and> getDownloadUrlInfo (JObj [(''href'', JStr ''h''),
                               (''download_urls'', JArr [JObj [(''url'', JStr ''u'')],
                                                         JObj [(''url'', JStr ''v''), (''default'', JBool True)]])])
     = Inr (JObj [(''url'', JStr ''v''), (''ajaxSafe'', JUndefined)])
   \<and> getDownloadUrlInfo (JObj [(''href'', JStr ''h''),
                               (''download_urls'', JArr [JObj [(''url'', JStr ''u'')], JObj [(''url'', JStr ''v'')]])])
     = Inr (JObj [(''url'', JStr ''h''), (''ajaxSafe'', JBool False)])"
  using
    getDownloadUrlInfo_precedence [of "JObj [(''resource_type'', JStr ''document''), (''sourcetype'', JStr ''REMOTE''),
                             (''href'', JStr ''h''), (''download_urls'', JArr [JObj [(''url'', JStr ''u'')]])]" "JNull" "[]"]
    getDownloadUrlInfo_precedence [of "JObj [(''href'', JStr ''h''),
                               (''download_urls'', JArr [JObj [(''url'', JStr ''u''), (''ajax_safe'', JBool True)]])]"
                               "JObj [(''url'', JStr ''u''), (''ajax_safe'', JBool True)]" "[]"]
    getDownloadUrlInfo_precedence [of "JObj [(''href'', JStr ''h''),
                               (''download_urls'', JArr [JObj [(''url'', JStr ''u'')],
                                                         JObj [(''url'', JStr ''v''), (''default'', JBool True)]])]"
                               "JNull" "[JObj [(''url'', JStr ''u'')],
                                                         JObj [(''url'', JStr ''v''), (''default'', JBool True)]]"]
    getDownloadUrlInfo_precedence [of "JObj [(''href'', JStr ''h''),
                               (''download_urls'', JArr [JObj [(''url'', JStr ''u'')], JObj [(''url'', JStr ''v'')]])]"
                               "JNull" "[JObj [(''url'', JStr ''u'')], JObj [(''url'', JStr ''v'')]]"]
  by (simp add: isDocumentExternalSource_def ResourceTypes_DOCUMENT_def SOURCE_TYPES_REMOTE_def
      qdot_def ownProp_def hrefUrl_def downloadUrlOf_def)

text \<open>
  Claim C9 as it was stated fails for a single entry that is empty: the list has length
  exactly 1, the resource is not an external document, and the result is the \<open>href\<close>
  fallback, not the entry's (undefined) \<open>url\<close> and \<open>ajax_safe\<close>.
\<close>

theorem getDownloadUrlInfo_empty_single_entry:
  "qdot (JObj [(''href'', JStr ''h''), (''download_urls'', JArr [JObj []])]) ''download_urls'' = JArr [JObj []]
   \<and> \<not> truthy (isDocumentExternalSource (JObj [(''href'', JStr ''h''), (''download_urls'', JArr [JObj []])]))
   \<and> getDownloadUrlInfo (JObj [(''href'', JStr ''h''), (''download_urls'', JArr [JObj []])])
       = Inr (JObj [(''url'', JStr ''h''), (''ajaxSafe'', JBool False)])
   \<and> getDownloadUrlInfo (JObj [(''href'', JStr ''h''), (''download_urls'', JArr [JObj []])])
       \<noteq> Inr (JObj [(''url'', getProp (JObj []) ''url''), (''ajaxSafe'', getProp (JObj []) ''ajax_safe'')])"
  by (simp add: getDownloadUrlInfo_def isDocumentExternalSource_def qdot_def ownProp_def hrefUrl_def
      ResourceTypes_DOCUMENT_def)


section \<open>Properties: object literals\<close>

lemma map_of_fold_update:
  "map_of (fold (\<lambda>(k, v). AList.update k v) ps acc) = map_of acc ++ map_of (rev ps)"
proof (induction ps arbitrary: acc)
  case Nil
  show ?case by simp
next
  case (Cons p ps)
  obtain k v where p: "p = (k, v)" by (cases p)
  show ?case
    by (simp add: p Cons.IH update_conv' map_add_upd_left fun_eq_iff map_add_def split: option.splits)
qed

lemma lastAssigned_Nil [simp]: "lastAssigned [] k = None"
  by (simp add: lastAssigned_def)

lemma lastAssigned_Cons [simp]:
  "lastAssigned ((a, b) # ps) k =
     (case lastAssigned ps k of Some v \<Rightarrow> Some v | None \<Rightarrow> if a = k then Some b else None)"
  by (simp add: lastAssigned_def map_add_def split: option.splits)

lemma lastAssigned_append [simp]:
  "lastAssigned (ps @ qs) k =
     (case lastAssigned qs k of Some v \<Rightarrow> Some v | None \<Rightarrow> lastAssigned ps k)"
  by (simp add: lastAssigned_def map_add_def split: option.splits)

lemma lastAssigned_None: "lastAssigned ps k = None \<longleftrightarrow> k \<notin> fst ` set ps"
  by (simp add: lastAssigned_def map_of_eq_None_iff)

lemma getProp_objLit:
  "getProp (objLit ps) k = (case lastAssigned ps k of None \<Rightarrow> JUndefined | Some v \<Rightarrow> v)"
  by (simp add: objLit_def ownProp_def map_of_fold_update lastAssigned_def)

lemma hasOwnProp_objLit: "hasOwnProp (objLit ps) k \<longleftrightarrow> lastAssigned ps k \<noteq> None"
  by (simp add: objLit_def hasOwnProp_def map_of_fold_update lastAssigned_def)

lemma getExtent_cases:
  "getExtentFromResource E r = Inr b \<Longrightarrow> b = JNull \<or> (\<exists>x1 x2 x3 x4. b = bboxOf x1 x2 x3 x4)"
  by (auto simp: getExtentFromResource_def Let_def dot_def split: sum.splits if_splits)

lemma getExtent_truthy: "getExtentFromResource E r = Inr b \<Longrightarrow> truthy b \<longleftrightarrow> b \<noteq> JNull"
  by (auto dest!: getExtent_cases simp: bboxOf_def)

lemma serverTypeProps_keys:
  "serverTypeProps E s u = Inr ps \<Longrightarrow> lastAssigned ps k = (if ps \<noteq> [] \<and> k = ''serverType'' then Some (NO_VENDOR E) else None)"
  by (auto simp: serverTypeProps_def bindE_def split: if_splits sum.splits)

lemma lastAssigned_spreadIf [simp]:
  "lastAssigned (spreadIf c ps) k = (if truthy c then lastAssigned ps k else None)"
  by (simp add: spreadIf_def)

lemma layerWms_Inr:
  assumes "layerWms E n r links b = (Inr layer, n')"
  shows "\<exists>wfsUrl wmsUrl dimensions params attrFields serverType.
           n' = Suc n \<and>
           serverTypeProps E (getProp r ''sourcetype'') wmsUrl = Inr serverType \<and>
           layer = objLit (wmsLayerProps E n r b wfsUrl wmsUrl dimensions params attrFields serverType)"
  using assms
  by (simp add: layerWms_def bindE_def split: sum.splits prod.splits) blast

lemma layerWms_bbox:
  assumes "layerWms E n r links b = (Inr layer, n')"
    and "lastAssigned (spread (getProp r ''data'')) ''bbox'' = None"
    and "lastAssigned (spread (getProp r ''data'')) ''bboxError'' = None"
  shows "if truthy b then getProp layer ''bbox'' = b \<and> \<not> hasOwnProp layer ''bboxError''
         else getProp layer ''bboxError'' = JBool True \<and> \<not> hasOwnProp layer ''bbox''"
proof -
  from layerWms_Inr [OF assms(1)] obtain wfsUrl wmsUrl dimensions params attrFields serverType
    where st: "serverTypeProps E (getProp r ''sourcetype'') wmsUrl = Inr serverType"
      and layer: "layer = objLit (wmsLayerProps E n r b wfsUrl wmsUrl dimensions params attrFields serverType)"
    by blast
  show ?thesis
    by (simp add: layer wmsLayerProps_def Let_def getProp_objLit hasOwnProp_objLit
          serverTypeProps_keys [OF st] assms(2,3))
qed


lemma nullish_iff: "nullish v \<longleftrightarrow> v = JUndefined \<or> v = JNull"
  by (cases v) auto

text \<open>
  Claim C6, as the code has it. For a resource that is not \<open>null\<close>,
  \<open>getExtentFromResource\<close> returns \<open>null\<close> when \<open>extent.coords\<close> is empty, and when
  \<open>minx < -180\<close>, \<open>miny < -90\<close>, \<open>maxx > 180\<close> or \<open>maxy > 90\<close>; otherwise it returns the
  bbox with crs \<open>EPSG:4326\<close> and those four coordinates as bounds. In the default (WMS)
  branch of \<open>resourceToLayerConfig\<close> the layer carries that bbox and no \<open>bboxError\<close> when
  the extent is valid, and \<open>bboxError: true\<close> and no \<open>bbox\<close> otherwise, provided the
  resource's \<open>data\<close>, which is spread last over the layer, defines neither key.
\<close>

theorem extent_bounded_by_WGS84:
  "(\<not> nullish r \<and> isEmpty (qdot (getProp r ''extent'') ''coords'') \<longrightarrow>
      getExtentFromResource E r = Inr JNull)
   \<and> (\<not> nullish r \<and> \<not> isEmpty (qdot (getProp r ''extent'') ''coords'')
        \<and> iterate (qdot (getProp r ''extent'') ''coords'') = Inr cs \<longrightarrow>
      getExtentFromResource E r =
        (if ltNum E (nthOrUndefined cs 0) (- 180) \<or> ltNum E (nthOrUndefined cs 1) (- 90)
            \<or> gtNum E (nthOrUndefined cs 2) 180 \<or> gtNum E (nthOrUndefined cs 3) 90
         then Inr JNull
         else Inr (JObj [(''crs'', JStr ''EPSG:4326''),
                         (''bounds'', JObj [(''minx'', nthOrUndefined cs 0),
                                            (''miny'', nthOrUndefined cs 1),
                                            (''maxx'', nthOrUndefined cs 2),
                                            (''maxy'', nthOrUndefined cs 3)])])))
   \<and> (resourceToLayerConfig E n r = (Inr layer, n')
        \<and> \<not> strict_eq (getProp r ''subtype'') (JStr ''3dtiles'')
        \<and> \<not> strict_eq (getProp r ''ptype'') (JStr GXP_PTYPES_REST_MAP)
        \<and> \<not> strict_eq (getProp r ''ptype'') (JStr GXP_PTYPES_REST_IMG)
        \<and> ''bbox'' \<notin> fst ` set (spread (getProp r ''data''))
        \<and> ''bboxError'' \<notin> fst ` set (spread (getProp r ''data'')) \<longrightarrow>
      (\<exists>bbox. getExtentFromResource E r = Inr bbox
         \<and> (if bbox \<noteq> JNull
             then getProp layer ''bbox'' = bbox \<and> \<not> hasOwnProp layer ''bboxError''
             else getProp layer ''bboxError'' = JBool True \<and> \<not> hasOwnProp layer ''bbox'')))"
proof (intro conjI impI)
  assume "\<not> nullish r \<and> isEmpty (qdot (getProp r ''extent'') ''coords'')"
  then show "getExtentFromResource E r = Inr JNull"
    by (simp add: getExtentFromResource_def dot_def)
next
  assume a: "\<not> nullish r \<and> \<not> isEmpty (qdot (getProp r ''extent'') ''coords'')
        \<and> iterate (qdot (getProp r ''extent'') ''coords'') = Inr cs"
  then have "\<not> nullish (getProp r ''extent'')"
    by (auto simp: qdot_def)
  then have "getProp (getProp r ''extent'') ''coords'' = qdot (getProp r ''extent'') ''coords''"
    by (simp add: qdot_def)
  with a show "getExtentFromResource E r =
        (if ltNum E (nthOrUndefined cs 0) (- 180) \<or> ltNum E (nthOrUndefined cs 1) (- 90)
            \<or> gtNum E (nthOrUndefined cs 2) 180 \<or> gtNum E (nthOrUndefined cs 3) 90
         then Inr JNull
         else Inr (JObj [(''crs'', JStr ''EPSG:4326''),
                         (''bounds'', JObj [(''minx'', nthOrUndefined cs 0),
                                            (''miny'', nthOrUndefined cs 1),
                                            (''maxx'', nthOrUndefined cs 2),
                                            (''maxy'', nthOrUndefined cs 3)])]))"
    by (simp add: getExtentFromResource_def dot_def Let_def WGS84_MAX_EXTENT_def bboxOf_def)
next
  assume a: "resourceToLayerConfig E n r = (Inr layer, n')
        \<and> \<not> strict_eq (getProp r ''subtype'') (JStr ''3dtiles'')
        \<and> \<not> strict_eq (getProp r ''ptype'') (JStr GXP_PTYPES_REST_MAP)
        \<and> \<not> strict_eq (getProp r ''ptype'') (JStr GXP_PTYPES_REST_IMG)
        \<and> ''bbox'' \<notin> fst ` set (spread (getProp r ''data''))
        \<and> ''bboxError'' \<notin> fst ` set (spread (getProp r ''data''))"
  then obtain bbox where b: "getExtentFromResource E r = Inr bbox"
    and w: "layerWms E n r (withDefault (getProp r ''links'') (JArr [])) bbox = (Inr layer, n')"
    by (auto simp: resourceToLayerConfig_def Let_def split: if_splits sum.splits)
  from a have k: "lastAssigned (spread (getProp r ''data'')) ''bbox'' = None"
    "lastAssigned (spread (getProp r ''data'')) ''bboxError'' = None"
    by (simp_all add: lastAssigned_None)
  from layerWms_bbox [OF w k] getExtent_truthy [OF b] b
  show "\<exists>bbox. getExtentFromResource E r = Inr bbox
         \<and> (if bbox \<noteq> JNull
             then getProp layer ''bbox'' = bbox \<and> \<not> hasOwnProp layer ''bboxError''
             else getProp layer ''bboxError'' = JBool True \<and> \<not> hasOwnProp layer ''bbox'')"
    by (cases "bbox = JNull") auto
qed


lemma delete_fold_update:
  "AList.delete k (fold (\<lambda>(a, b). AList.update a b) ps acc)
     = fold (\<lambda>(a, b). AList.update a b) (filter (\<lambda>p. fst p \<noteq> k) ps) (AList.delete k acc)"
proof (induction ps arbitrary: acc)
  case Nil
  show ?case by simp
next
  case (Cons p ps)
  obtain a b where p: "p = (a, b)" by (cases p)
  show ?case
    by (simp add: p Cons.IH delete_update_same delete_update)
qed

lemma dropProp_objLit: "dropProp k (objLit ps) = objLit (filter (\<lambda>p. fst p \<noteq> k) ps)"
  by (simp add: dropProp_def objLit_def delete_fold_update)

lemma filter_spreadIf: "filter P (spreadIf c ps) = spreadIf c (filter P ps)"
  by (simp add: spreadIf_def)

lemma layerWms_drop_id:
  "map_sum id (dropProp ''id'') (fst (layerWms E n r l b))
     = map_sum id (dropProp ''id'') (fst (layerWms E m r l b))"
  by (simp add: layerWms_def bindE_def dropProp_objLit wmsLayerProps_def Let_def filter_spreadIf
      split: sum.splits prod.splits)

lemma layer3dtiles_drop_id:
  "map_sum id (dropProp ''id'') (fst (layer3dtiles E n r l b))
     = map_sum id (dropProp ''id'') (fst (layer3dtiles E m r l b))"
  by (simp add: layer3dtiles_def bindE_def dropProp_objLit Let_def filter_spreadIf
      split: sum.splits prod.splits)

lemma layerArcgis_drop_id:
  "map_sum id (dropProp ''id'') (fst (layerArcgis E n r l b))
     = map_sum id (dropProp ''id'') (fst (layerArcgis E m r l b))"
  by (simp add: layerArcgis_def bindE_def dropProp_objLit Let_def filter_spreadIf
      split: sum.splits prod.splits)

lemma layerWms_count: "snd (layerWms E n r l b) - n = snd (layerWms E m r l b) - m"
  by (simp add: layerWms_def split: sum.splits prod.splits)

lemma layer3dtiles_count: "snd (layer3dtiles E n r l b) - n = snd (layer3dtiles E m r l b) - m"
  by (simp add: layer3dtiles_def split: sum.splits prod.splits)

lemma layerArcgis_count: "snd (layerArcgis E n r l b) - n = snd (layerArcgis E m r l b) - m"
  by (simp add: layerArcgis_def split: sum.splits prod.splits)

lemma layerWms_id:
  assumes "layerWms E n r l b = (Inr layer, n')"
    and "''id'' \<notin> fst ` set (spread (getProp r ''data''))"
  shows "n' = Suc n \<and> getProp layer ''id'' = JStr (uuids E n)"
proof -
  from layerWms_Inr [OF assms(1)] obtain wfsUrl wmsUrl dimensions params attrFields serverType
    where st: "serverTypeProps E (getProp r ''sourcetype'') wmsUrl = Inr serverType"
      and n': "n' = Suc n"
      and layer: "layer = objLit (wmsLayerProps E n r b wfsUrl wmsUrl dimensions params attrFields serverType)"
    by blast
  from assms(2) have k: "lastAssigned (spread (getProp r ''data'')) ''id'' = None"
    by (simp add: lastAssigned_None)
  show ?thesis
    by (simp add: n' layer wmsLayerProps_def Let_def getProp_objLit serverTypeProps_keys [OF st] k)
qed

lemma layer3dtiles_id:
  assumes "layer3dtiles E n r l b = (Inr layer, n')"
  shows "n' = Suc n \<and> getProp layer ''id'' = JStr (uuids E n)"
  using assms
  by (auto simp: layer3dtiles_def getProp_objLit split: sum.splits)

lemma layerArcgis_id:
  assumes "layerArcgis E n r l b = (Inr layer, n')"
  shows "n' = Suc n \<and> getProp layer ''id'' = JStr (uuids E n)"
  using assms
  by (auto simp: layerArcgis_def bindE_def getProp_objLit split: sum.splits if_splits json.splits)

lemma layerWms_bound: "n \<le> snd (layerWms E n r l b) \<and> snd (layerWms E n r l b) \<le> Suc n"
  by (simp add: layerWms_def split: sum.splits prod.splits)

lemma layer3dtiles_bound:
  "n \<le> snd (layer3dtiles E n r l b) \<and> snd (layer3dtiles E n r l b) \<le> Suc n"
  by (simp add: layer3dtiles_def split: sum.splits prod.splits)

lemma layerArcgis_bound:
  "n \<le> snd (layerArcgis E n r l b) \<and> snd (layerArcgis E n r l b) \<le> Suc n"
  by (simp add: layerArcgis_def split: sum.splits prod.splits)

lemma layerWms_drawn: "layerWms E n r l b = (Inr layer, n') \<Longrightarrow> n' = Suc n"
  using layerWms_Inr by blast

text \<open>
  Claim C1, as the code has it. Two applications of \<open>resourceToLayerConfig\<close> to the same
  resource, under the same configuration, give outputs that agree on every field but
  \<open>id\<close> (and raise together when they raise), and draw the same number of values from
  \<open>uuid()\<close>; an application draws at most one value, whatever the resource and whether it
  returns or raises, and changes nothing else; an application that returns a layer has
  drawn exactly one value, and the layer has that value as its \<open>id\<close>, unless the
  resource's \<open>data\<close> defines an \<open>id\<close>.
\<close>

theorem resourceToLayerConfig_pure_except_id:
  "map_sum id (dropProp ''id'') (fst (resourceToLayerConfig E n r))
     = map_sum id (dropProp ''id'') (fst (resourceToLayerConfig E m r))
   \<and> snd (resourceToLayerConfig E n r) - n = snd (resourceToLayerConfig E m r) - m
   \<and> n \<le> snd (resourceToLayerConfig E n r)
   \<and> snd (resourceToLayerConfig E n r) \<le> Suc n
   \<and> (resourceToLayerConfig E n r = (Inr layer, n') \<longrightarrow> n' = Suc n)
   \<and> (resourceToLayerConfig E n r = (Inr layer, n')
        \<and> ''id'' \<notin> fst ` set (spread (getProp r ''data'')) \<longrightarrow>
      getProp layer ''id'' = JStr (uuids E n))"
proof -
  have same: "map_sum id (dropProp ''id'') (fst (resourceToLayerConfig E n r))
     = map_sum id (dropProp ''id'') (fst (resourceToLayerConfig E m r))"
    by (simp add: resourceToLayerConfig_def Let_def layerWms_drop_id [of E n r _ _ m]
        layer3dtiles_drop_id [of E n r _ _ m] layerArcgis_drop_id [of E n r _ _ m]
        split: sum.splits)
  have count: "snd (resourceToLayerConfig E n r) - n = snd (resourceToLayerConfig E m r) - m"
    by (simp add: resourceToLayerConfig_def Let_def layerWms_count [of E n r _ _ m]
        layer3dtiles_count [of E n r _ _ m] layerArcgis_count [of E n r _ _ m]
        split: sum.splits)
  have bound: "n \<le> snd (resourceToLayerConfig E n r) \<and> snd (resourceToLayerConfig E n r) \<le> Suc n"
    by (simp add: resourceToLayerConfig_def Let_def layerWms_bound layer3dtiles_bound
        layerArcgis_bound split: sum.splits)
  have drawn: "n' = Suc n" if "resourceToLayerConfig E n r = (Inr layer, n')"
    using that
    by (auto simp: resourceToLayerConfig_def Let_def
        dest: layerWms_drawn layer3dtiles_id layerArcgis_id split: sum.splits if_splits)
  have fresh: "getProp layer ''id'' = JStr (uuids E n)"
    if "resourceToLayerConfig E n r = (Inr layer, n')"
      and "''id'' \<notin> fst ` set (spread (getProp r ''data''))"
    using that
    by (auto simp: resourceToLayerConfig_def Let_def
        dest: layerWms_id layer3dtiles_id layerArcgis_id split: sum.splits if_splits)
  from same count bound drawn fresh show ?thesis by blast
qed

lemma sampleEnv_uuids_0: "uuids sampleEnv 0 = ''0''"
  by (simp add: sampleEnv_def showNat.simps)

lemma sample_dataset_layer_0:
  "resourceToLayerConfig sampleEnv 0 sampleDataset = (Inr (sampleDatasetLayer ''0''), Suc 0)"
  by code_simp

lemma sample_dataset_layer_1:
  "resourceToLayerConfig sampleEnv (Suc 0) sampleDataset
     = (Inr (sampleDatasetLayer ''1''), Suc (Suc 0))"
  by code_simp

lemma sample_tileset_raises:
  "resourceToLayerConfig sampleEnv 4 (JObj [(''subtype'', JStr ''3dtiles''), (''links'', JNull)])
     = (Inl TypeError, 4)"
  by code_simp

text \<open>
  The parts at the sample dataset, for the first and the second call of \<open>uuid()\<close>, and the
  count of a run that raises (a 3D tiles resource whose \<open>links\<close> is \<open>null\<close>).
\<close>

theorem resourceToLayerConfig_pure_except_id_witness:
  "resourceToLayerConfig sampleEnv 0 sampleDataset = (Inr (sampleDatasetLayer ''0''), Suc 0)
   \<and> ''id'' \<notin> fst ` set (spread (getProp sampleDataset ''data''))
   \<and> getProp (sampleDatasetLayer ''0'') ''id'' = JStr (uuids sampleEnv 0)
   \<and> dropProp ''id'' (sampleDatasetLayer ''0'') = dropProp ''id'' (sampleDatasetLayer ''1'')
   \<and> snd (resourceToLayerConfig sampleEnv 0 sampleDataset) - 0
       = snd (resourceToLayerConfig sampleEnv (Suc 0) sampleDataset) - Suc 0
   \<and> snd (resourceToLayerConfig sampleEnv 0 sampleDataset) \<le> Suc 0
   \<and> 4 \<le> snd (resourceToLayerConfig sampleEnv 4
                  (JObj [(''subtype'', JStr ''3dtiles''), (''links'', JNull)]))
   \<and> snd (resourceToLayerConfig sampleEnv 4
            (JObj [(''subtype'', JStr ''3dtiles''), (''links'', JNull)])) \<le> 5"
proof -
  have noid: "''id'' \<notin> fst ` set (spread (getProp sampleDataset ''data''))"
    by (simp add: sampleDataset_def ownProp_def)
  from resourceToLayerConfig_pure_except_id
         [of sampleEnv 0 sampleDataset "Suc 0" "sampleDatasetLayer ''0''" "Suc 0"]
  have same: "dropProp ''id'' (sampleDatasetLayer ''0'') = dropProp ''id'' (sampleDatasetLayer ''1'')"
    and count: "snd (resourceToLayerConfig sampleEnv 0 sampleDataset) - 0
       = snd (resourceToLayerConfig sampleEnv (Suc 0) sampleDataset) - Suc 0"
    and most: "snd (resourceToLayerConfig sampleEnv 0 sampleDataset) \<le> Suc 0"
    and ident: "getProp (sampleDatasetLayer ''0'') ''id'' = JStr (uuids sampleEnv 0)"
    using noid by (simp_all add: sample_dataset_layer_0 sample_dataset_layer_1)
  from resourceToLayerConfig_pure_except_id
         [of sampleEnv 4 "JObj [(''subtype'', JStr ''3dtiles''), (''links'', JNull)]" 4 JNull 4]
  have least: "4 \<le> snd (resourceToLayerConfig sampleEnv 4
                  (JObj [(''subtype'', JStr ''3dtiles''), (''links'', JNull)]))"
    and raised: "snd (resourceToLayerConfig sampleEnv 4
            (JObj [(''subtype'', JStr ''3dtiles''), (''links'', JNull)])) \<le> 5"
    by simp_all
  from sample_dataset_layer_0 noid ident same count most least raised show ?thesis
    by (intro conjI)
qed

text \<open>
  Claim C1 as it was stated fails: two successive applications to the same resource return
  layers with different ids, so the outputs are not identical.
\<close>

theorem resourceToLayerConfig_second_call_differs:
  "resourceToLayerConfig sampleEnv 0 sampleDataset = (Inr (sampleDatasetLayer ''0''), 1)
   \<and> resourceToLayerConfig sampleEnv 1 sampleDataset = (Inr (sampleDatasetLayer ''1''), 2)
   \<and> getProp (sampleDatasetLayer ''0'') ''id'' = JStr ''0''
   \<and> getProp (sampleDatasetLayer ''1'') ''id'' = JStr ''1''
   \<and> fst (resourceToLayerConfig sampleEnv 0 sampleDataset)
       \<noteq> fst (resourceToLayerConfig sampleEnv 1 sampleDataset)"
  using sample_dataset_layer_0 sample_dataset_layer_1
  by (simp add: sampleDatasetLayer_def ownProp_def)

lemma sample_layer_extent:
  "resourceToLayerConfig sampleEnv 0 (JObj [(''extent'', JObj [(''coords'', JArr [JNum 0, JNum 0, JNum 1, JNum 1])])]) =
     (Inr (JObj [(''perms'', JUndefined), (''id'', JStr ''0''), (''pk'', JUndefined),
             (''type'', JStr ''wms''), (''name'', JUndefined), (''url'', JStr []),
             (''format'', JStr ''image/png''), (''bbox'', JObj [(''crs'', JStr ''EPSG:4326''),
                   (''bounds'', JObj [(''minx'', JNum 0), (''miny'', JNum 0), (''maxx'', JNum 1), (''maxy'', JNum 1)])]),
             (''style'', JStr []), (''title'', JUndefined), (''tileSize'', JNum 512),
             (''visibility'', JBool True),
             (''extendedParams'',
              JObj [(''pk'', JUndefined), (''mapLayer'', JObj [(''dataset'', JObj [(''extent'', JObj [(''coords'', JArr [JNum 0, JNum 0, JNum 1, JNum 1])])])])]),
             (''fields'', JArr [])]), 1)"
  by code_simp

lemma sample_layer_override:
  "resourceToLayerConfig sampleEnv 0 (JObj [(''extent'', JObj [(''coords'', JArr [JNum 0, JNum 0, JNum 1, JNum 1])]),
         (''data'', JObj [(''bbox'', JNull)])]) =
     (Inr (JObj [(''perms'', JUndefined), (''id'', JStr ''0''), (''pk'', JUndefined),
             (''type'', JStr ''wms''), (''name'', JUndefined), (''url'', JStr []),
             (''format'', JStr ''image/png''), (''bbox'', JNull),
             (''style'', JStr []), (''title'', JUndefined), (''tileSize'', JNum 512),
             (''visibility'', JBool True),
             (''extendedParams'',
              JObj [(''pk'', JUndefined), (''mapLayer'', JObj [(''dataset'', JObj [(''extent'', JObj [(''coords'', JArr [JNum 0, JNum 0, JNum 1, JNum 1])]),
         (''data'', JObj [(''bbox'', JNull)])])])]),
             (''fields'', JArr [])]), 1)"
  by code_simp

text \<open>
  The three parts at a resource with the extent \<open>[0, 0, 1, 1]\<close>.
\<close>

theorem extent_bounded_by_WGS84_witness:
  "getExtentFromResource sampleEnv (JObj [(''extent'', JObj [(''coords'', JArr [JNum 0, JNum 0, JNum 1, JNum 1])])])
     = Inr (JObj [(''crs'', JStr ''EPSG:4326''),
                   (''bounds'', JObj [(''minx'', JNum 0), (''miny'', JNum 0), (''maxx'', JNum 1), (''maxy'', JNum 1)])])
   \<and> resourceToLayerConfig sampleEnv 0 (JObj [(''extent'', JObj [(''coords'', JArr [JNum 0, JNum 0, JNum 1, JNum 1])])]) =
     (Inr (JObj [(''perms'', JUndefined), (''id'', JStr ''0''), (''pk'', JUndefined),
             (''type'', JStr ''wms''), (''name'', JUndefined), (''url'', JStr []),
             (''format'', JStr ''image/png''), (''bbox'', JObj [(''crs'', JStr ''EPSG:4326''),
                   (''bounds'', JObj [(''minx'', JNum 0), (''miny'', JNum 0), (''maxx'', JNum 1), (''maxy'', JNum 1)])]),
             (''style'', JStr []), (''title'', JUndefined), (''tileSize'', JNum 512),
             (''visibility'', JBool True),
             (''extendedParams'',
              JObj [(''pk'', JUndefined), (''mapLayer'', JObj [(''dataset'', JObj [(''extent'', JObj [(''coords'', JArr [JNum 0, JNum 0, JNum 1, JNum 1])])])])]),
             (''fields'', JArr [])]), 1)
   \<and> getProp (JObj [(''perms'', JUndefined), (''id'', JStr ''0''), (''pk'', JUndefined),
             (''type'', JStr ''wms''), (''name'', JUndefined), (''url'', JStr []),
             (''format'', JStr ''image/png''), (''bbox'', JObj [(''crs'', JStr ''EPSG:4326''),
                   (''bounds'', JObj [(''minx'', JNum 0), (''miny'', JNum 0), (''maxx'', JNum 1), (''maxy'', JNum 1)])]),
             (''style'', JStr []), (''title'', JUndefined), (''tileSize'', JNum 512),
             (''visibility'', JBool True),
             (''extendedParams'',
              JObj [(''pk'', JUndefined), (''mapLayer'', JObj [(''dataset'', JObj [(''extent'', JObj [(''coords'', JArr [JNum 0, JNum 0, JNum 1, JNum 1])])])])]),
             (''fields'', JArr [])]) ''bbox''
     = JObj [(''crs'', JStr ''EPSG:4326''),
                   (''bounds'', JObj [(''minx'', JNum 0), (''miny'', JNum 0), (''maxx'', JNum 1), (''maxy'', JNum 1)])]
   \<and> \<not> hasOwnProp (JObj [(''perms'', JUndefined), (''id'', JStr ''0''), (''pk'', JUndefined),
             (''type'', JStr ''wms''), (''name'', JUndefined), (''url'', JStr []),
             (''format'', JStr ''image/png''), (''bbox'', JObj [(''crs'', JStr ''EPSG:4326''),
                   (''bounds'', JObj [(''minx'', JNum 0), (''miny'', JNum 0), (''maxx'', JNum 1), (''maxy'', JNum 1)])]),
             (''style'', JStr []), (''title'', JUndefined), (''tileSize'', JNum 512),
             (''visibility'', JBool True),
             (''extendedParams'',
              JObj [(''pk'', JUndefined), (''mapLayer'', JObj [(''dataset'', JObj [(''extent'', JObj [(''coords'', JArr [JNum 0, JNum 0, JNum 1, JNum 1])])])])]),
             (''fields'', JArr [])]) ''bboxError''"
  using extent_bounded_by_WGS84 [of "JObj [(''extent'', JObj [(''coords'', JArr [JNum 0, JNum 0, JNum 1, JNum 1])])]" sampleEnv "[JNum 0, JNum 0, JNum 1, JNum 1]" 0
      "JObj [(''perms'', JUndefined), (''id'', JStr ''0''), (''pk'', JUndefined),
             (''type'', JStr ''wms''), (''name'', JUndefined), (''url'', JStr []),
             (''format'', JStr ''image/png''), (''bbox'', JObj [(''crs'', JStr ''EPSG:4326''),
                   (''bounds'', JObj [(''minx'', JNum 0), (''miny'', JNum 0), (''maxx'', JNum 1), (''maxy'', JNum 1)])]),
             (''style'', JStr []), (''title'', JUndefined), (''tileSize'', JNum 512),
             (''visibility'', JBool True),
             (''extendedParams'',
              JObj [(''pk'', JUndefined), (''mapLayer'', JObj [(''dataset'', JObj [(''extent'', JObj [(''coords'', JArr [JNum 0, JNum 0, JNum 1, JNum 1])])])])]),
             (''fields'', JArr [])]" 1]
    sample_layer_extent
  by (auto simp add: qdot_def ownProp_def nthOrUndefined_def ltNum_def gtNum_def toNumber_def
      GXP_PTYPES_REST_MAP_def GXP_PTYPES_REST_IMG_def hasOwnProp_def)

text \<open>
  Claim C6 as it was stated fails when the resource's \<open>data\<close> has a \<open>bbox\<close> of its own: the
  extent is valid, the branch is the default one, and the layer carries the \<open>bbox\<close> of
  \<open>data\<close> (here \<open>null\<close>), not the one computed from the extent.
\<close>

theorem layer_bbox_overridden_by_data:
  "getExtentFromResource sampleEnv (JObj [(''extent'', JObj [(''coords'', JArr [JNum 0, JNum 0, JNum 1, JNum 1])]),
         (''data'', JObj [(''bbox'', JNull)])])
     = Inr (JObj [(''crs'', JStr ''EPSG:4326''),
                   (''bounds'', JObj [(''minx'', JNum 0), (''miny'', JNum 0), (''maxx'', JNum 1), (''maxy'', JNum 1)])])
   \<and> \<not> strict_eq (getProp (JObj [(''extent'', JObj [(''coords'', JArr [JNum 0, JNum 0, JNum 1, JNum 1])]),
         (''data'', JObj [(''bbox'', JNull)])]) ''subtype'') (JStr ''3dtiles'')
   \<and> \<not> strict_eq (getProp (JObj [(''extent'', JObj [(''coords'', JArr [JNum 0, JNum 0, JNum 1, JNum 1])]),
         (''data'', JObj [(''bbox'', JNull)])]) ''ptype'') (JStr GXP_PTYPES_REST_MAP)
   \<and> resourceToLayerConfig sampleEnv 0 (JObj [(''extent'', JObj [(''coords'', JArr [JNum 0, JNum 0, JNum 1, JNum 1])]),
         (''data'', JObj [(''bbox'', JNull)])]) =
     (Inr (JObj [(''perms'', JUndefined), (''id'', JStr ''0''), (''pk'', JUndefined),
             (''type'', JStr ''wms''), (''name'', JUndefined), (''url'', JStr []),
             (''format'', JStr ''image/png''), (''bbox'', JNull),
             (''style'', JStr []), (''title'', JUndefined), (''tileSize'', JNum 512),
             (''visibility'', JBool True),
             (''extendedParams'',
              JObj [(''pk'', JUndefined), (''mapLayer'', JObj [(''dataset'', JObj [(''extent'', JObj [(''coords'', JArr [JNum 0, JNum 0, JNum 1, JNum 1])]),
         (''data'', JObj [(''bbox'', JNull)])])])]),
             (''fields'', JArr [])]), 1)
   \<and> getProp (JObj [(''perms'', JUndefined), (''id'', JStr ''0''), (''pk'', JUndefined),
             (''type'', JStr ''wms''), (''name'', JUndefined), (''url'', JStr []),
             (''format'', JStr ''image/png''), (''bbox'', JNull),
             (''style'', JStr []), (''title'', JUndefined), (''tileSize'', JNum 512),
             (''visibility'', JBool True),
             (''extendedParams'',
              JObj [(''pk'', JUndefined), (''mapLayer'', JObj [(''dataset'', JObj [(''extent'', JObj [(''coords'', JArr [JNum 0, JNum 0, JNum 1, JNum 1])]),
         (''data'', JObj [(''bbox'', JNull)])])])]),
             (''fields'', JArr [])]) ''bbox'' = JNull"
  using sample_layer_override
  by (simp add: getExtentFromResource_def dot_def qdot_def ownProp_def nthOrUndefined_def ltNum_def
      gtNum_def toNumber_def WGS84_MAX_EXTENT_def bboxOf_def Let_def)


section \<open>Properties: saving, and the download button\<close>

lemma SaveAPI_MAP_cases:
  "parseMapBody body = Inr body' \<Longrightarrow>
     SaveAPI_MAP ident body =
       Inr (Requested (if truthy ident then UpdateMap ident (objLit (spread body' @ [(''id'', ident)]))
                       else CreateMap body'))"
  by (simp add: SaveAPI_MAP_def bindE_def)

lemma parseMapBody_Inr:
  "parseMapBody body = Inr body' \<Longrightarrow>
     \<exists>geoNodeMap. toGeoNodeMapConfig (getProp body ''data'') = Inr geoNodeMap
        \<and> body' = objLit (spread body @ spread geoNodeMap)"
  by (auto simp: parseMapBody_def bindE_def dot_def split: sum.splits if_splits)

lemma parseMapBody_maplayers:
  "parseMapBody body = Inr body' \<Longrightarrow> truthy (getProp body ''data'') \<Longrightarrow>
     \<exists>maplayers. getGeoNodeMapLayers (getProp body ''data'') = Inr maplayers
        \<and> getProp body' ''maplayers'' = JArr maplayers"
  by (auto simp: parseMapBody_def toGeoNodeMapConfig_def bindE_def dot_def getProp_objLit
      split: sum.splits if_splits)

text \<open>
  Claim C5, as the code has it. For a map, \<open>SaveAPI\<close> calls \<open>updateMap(id, { ...body', id })\<close>
  when the id is truthy and \<open>createMap(body')\<close> otherwise, where \<open>body'\<close> is the body
  extended with what \<open>toGeoNodeMapConfig\<close> computes from \<open>body.data\<close> (the \<open>maplayers\<close> of
  \<open>getGeoNodeMapLayers\<close> when there is data); for a document it calls
  \<open>updateDocument(id, body)\<close> when the id is truthy and returns \<open>false\<close>, with no request,
  otherwise.
\<close>

theorem SaveAPI_update_or_create:
  "(parseMapBody body = Inr body' \<longrightarrow>
      SaveAPI_MAP ident body =
        Inr (Requested (if truthy ident
                        then UpdateMap ident (objLit (spread body' @ [(''id'', ident)]))
                        else CreateMap body'))
      \<and> (\<exists>geoNodeMap. toGeoNodeMapConfig (getProp body ''data'') = Inr geoNodeMap
            \<and> body' = objLit (spread body @ spread geoNodeMap))
      \<and> (truthy (getProp body ''data'') \<longrightarrow>
            (\<exists>maplayers. getGeoNodeMapLayers (getProp body ''data'') = Inr maplayers
               \<and> getProp body' ''maplayers'' = JArr maplayers)))
   \<and> SaveAPI_DOCUMENT ident body =
       (if truthy ident then Requested (UpdateDocument ident body) else ReturnedFalse)"
  using SaveAPI_MAP_cases parseMapBody_Inr parseMapBody_maplayers
  by (simp add: SaveAPI_DOCUMENT_def)


lemma sample_parseMapBody:
  "parseMapBody (JObj [(''title'', JStr ''t''),
           (''data'', JObj [(''map'', JObj [(''layers'',
              JArr [JObj [(''id'', JStr ''l1''),
                          (''extendedParams'', JObj [(''mapLayer'', JObj [(''pk'', JNum 7)])])]])])])])
     = Inr (JObj [(''title'', JStr ''t''),
           (''data'', JObj [(''map'', JObj [(''layers'',
              JArr [JObj [(''id'', JStr ''l1''),
                          (''extendedParams'', JObj [(''mapLayer'', JObj [(''pk'', JNum 7)])])]])])]),
           (''maplayers'', JArr [JObj [(''pk'', JNum 7), (''current_style'', JStr []),
                        (''extra_params'', JObj [(''msId'', JStr ''l1'')]),
                        (''name'', JStr []), (''order'', JNum 0), (''opacity'', JNum 1),
                        (''visibility'', JUndefined)]])])"
  by code_simp

text \<open>
  Update and create for a map with one dataset layer, and for a document.
\<close>

theorem SaveAPI_update_or_create_witness:
  "parseMapBody (JObj [(''title'', JStr ''t''),
           (''data'', JObj [(''map'', JObj [(''layers'',
              JArr [JObj [(''id'', JStr ''l1''),
                          (''extendedParams'', JObj [(''mapLayer'', JObj [(''pk'', JNum 7)])])]])])])])
     = Inr (JObj [(''title'', JStr ''t''),
           (''data'', JObj [(''map'', JObj [(''layers'',
              JArr [JObj [(''id'', JStr ''l1''),
                          (''extendedParams'', JObj [(''mapLayer'', JObj [(''pk'', JNum 7)])])]])])]),
           (''maplayers'', JArr [JObj [(''pk'', JNum 7), (''current_style'', JStr []),
                        (''extra_params'', JObj [(''msId'', JStr ''l1'')]),
                        (''name'', JStr []), (''order'', JNum 0), (''opacity'', JNum 1),
                        (''visibility'', JUndefined)]])])
   \<and> SaveAPI_MAP (JNum 5) (JObj [(''title'', JStr ''t''),
           (''data'', JObj [(''map'', JObj [(''layers'',
              JArr [JObj [(''id'', JStr ''l1''),
                          (''extendedParams'', JObj [(''mapLayer'', JObj [(''pk'', JNum 7)])])]])])])])
     = Inr (Requested (UpdateMap (JNum 5) (JObj [(''title'', JStr ''t''),
           (''data'', JObj [(''map'', JObj [(''layers'',
              JArr [JObj [(''id'', JStr ''l1''),
                          (''extendedParams'', JObj [(''mapLayer'', JObj [(''pk'', JNum 7)])])]])])]),
           (''maplayers'', JArr [JObj [(''pk'', JNum 7), (''current_style'', JStr []),
                        (''extra_params'', JObj [(''msId'', JStr ''l1'')]),
                        (''name'', JStr []), (''order'', JNum 0), (''opacity'', JNum 1),
                        (''visibility'', JUndefined)]]),
           (''id'', JNum 5)])))
   \<and> SaveAPI_MAP JUndefined (JObj [(''title'', JStr ''t''),
           (''data'', JObj [(''map'', JObj [(''layers'',
              JArr [JObj [(''id'', JStr ''l1''),
                          (''extendedParams'', JObj [(''mapLayer'', JObj [(''pk'', JNum 7)])])]])])])])
     = Inr (Requested (CreateMap (JObj [(''title'', JStr ''t''),
           (''data'', JObj [(''map'', JObj [(''layers'',
              JArr [JObj [(''id'', JStr ''l1''),
                          (''extendedParams'', JObj [(''mapLayer'', JObj [(''pk'', JNum 7)])])]])])]),
           (''maplayers'', JArr [JObj [(''pk'', JNum 7), (''current_style'', JStr []),
                        (''extra_params'', JObj [(''msId'', JStr ''l1'')]),
                        (''name'', JStr []), (''order'', JNum 0), (''opacity'', JNum 1),
                        (''visibility'', JUndefined)]])])))
   \<and> SaveAPI_DOCUMENT (JNum 5) (JObj [(''title'', JStr ''t'')]) = Requested (UpdateDocument (JNum 5) (JObj [(''title'', JStr ''t'')]))
   \<and> SaveAPI_DOCUMENT JUndefined (JObj [(''title'', JStr ''t'')]) = ReturnedFalse"
  using SaveAPI_update_or_create [of "JObj [(''title'', JStr ''t''),
           (''data'', JObj [(''map'', JObj [(''layers'',
              JArr [JObj [(''id'', JStr ''l1''),
                          (''extendedParams'', JObj [(''mapLayer'', JObj [(''pk'', JNum 7)])])]])])])]" "JObj [(''title'', JStr ''t''),
           (''data'', JObj [(''map'', JObj [(''layers'',
              JArr [JObj [(''id'', JStr ''l1''),
                          (''extendedParams'', JObj [(''mapLayer'', JObj [(''pk'', JNum 7)])])]])])]),
           (''maplayers'', JArr [JObj [(''pk'', JNum 7), (''current_style'', JStr []),
                        (''extra_params'', JObj [(''msId'', JStr ''l1'')]),
                        (''name'', JStr []), (''order'', JNum 0), (''opacity'', JNum 1),
                        (''visibility'', JUndefined)]])]" "JNum 5"]
    SaveAPI_update_or_create [of "JObj [(''title'', JStr ''t''),
           (''data'', JObj [(''map'', JObj [(''layers'',
              JArr [JObj [(''id'', JStr ''l1''),
                          (''extendedParams'', JObj [(''mapLayer'', JObj [(''pk'', JNum 7)])])]])])])]" "JObj [(''title'', JStr ''t''),
           (''data'', JObj [(''map'', JObj [(''layers'',
              JArr [JObj [(''id'', JStr ''l1''),
                          (''extendedParams'', JObj [(''mapLayer'', JObj [(''pk'', JNum 7)])])]])])]),
           (''maplayers'', JArr [JObj [(''pk'', JNum 7), (''current_style'', JStr []),
                        (''extra_params'', JObj [(''msId'', JStr ''l1'')]),
                        (''name'', JStr []), (''order'', JNum 0), (''opacity'', JNum 1),
                        (''visibility'', JUndefined)]])]" JUndefined]
    SaveAPI_update_or_create [of "JObj [(''title'', JStr ''t'')]" "JObj [(''title'', JStr ''t'')]" "JNum 5"]
    SaveAPI_update_or_create [of "JObj [(''title'', JStr ''t'')]" "JObj [(''title'', JStr ''t'')]" JUndefined]
    sample_parseMapBody
  by (simp add: objLit_def)

text \<open>
  Claim C5 as it was stated fails on the payload of the update: it is not \<open>body'\<close> but
  \<open>body'\<close> with the id added.
\<close>

theorem SaveAPI_update_body_has_id:
  "parseMapBody (JObj [(''title'', JStr ''t'')]) = Inr (JObj [(''title'', JStr ''t'')])
   \<and> truthy (JNum 5)
   \<and> SaveAPI_MAP (JNum 5) (JObj [(''title'', JStr ''t'')])
       = Inr (Requested (UpdateMap (JNum 5) (JObj [(''title'', JStr ''t''), (''id'', JNum 5)])))
   \<and> SaveAPI_MAP (JNum 5) (JObj [(''title'', JStr ''t'')]) \<noteq> Inr (Requested (UpdateMap (JNum 5) (JObj [(''title'', JStr ''t'')])))"
  by (simp add: SaveAPI_MAP_def parseMapBody_def toGeoNodeMapConfig_def bindE_def dot_def ownProp_def
      objLit_def)

text \<open>
  Claim C8. For the resource the button is given (\<open>resource ?? resourceData\<close>): when its
  \<open>perms\<close> are missing or a list without \<open>download_resourcebase\<close>, or its \<open>ptype\<close> is
  \<open>REST_MAP\<close> or \<open>REST_IMG\<close>, or its \<open>sourcetype\<close> is not among the allowed sources, or the
  button is a menu item and the download info is not ajax-safe, \<open>DownloadButton\<close> renders
  nothing: it returns \<open>null\<close>, the one alternative being a \<open>TypeError\<close> raised on a
  malformed resource (\<open>download_urls\<close>, \<open>perms\<close> or the allowed sources not a list), and
  it returns \<open>null\<close> whenever these are well formed.
\<close>

theorem DownloadButton_null_when_excluded:
  assumes R: "R = js_coalesce (p_resource props) (p_resourceData props)"
    and excluded:
      "nullish (qdot R ''perms'')
       \<or> (\<exists>xs. qdot R ''perms'' = JArr xs \<and> JStr ''download_resourcebase'' \<notin> set xs)
       \<or> qdot R ''ptype'' = JStr GXP_PTYPES_REST_MAP
       \<or> qdot R ''ptype'' = JStr GXP_PTYPES_REST_IMG
       \<or> (\<exists>xs. withDefault (p_allowedSources props)
                  (JArr [JStr SOURCE_TYPES_LOCAL, JStr SOURCE_TYPES_REMOTE]) = JArr xs
              \<and> \<not> list_ex (\<lambda>x. strict_eq x (qdot R ''sourcetype'')) xs)
       \<or> (withDefault (p_renderType props) (JStr ''button'') = JStr ''menuItem''
           \<and> (\<exists>info. getDownloadUrlInfo R = Inr info \<and> \<not> truthy (qdot info ''ajaxSafe'')))"
  shows "(DownloadButton E props = Inr RenderedNull \<or> DownloadButton E props = Inl TypeError)
         \<and> ((\<exists>info. getDownloadUrlInfo R = Inr info) \<and> (\<exists>b. hasDownloadPerm R = Inr b)
              \<and> (\<exists>xs. withDefault (p_allowedSources props)
                         (JArr [JStr SOURCE_TYPES_LOCAL, JStr SOURCE_TYPES_REMOTE]) = JArr xs)
             \<longrightarrow> DownloadButton E props = Inr RenderedNull)"
proof -
  have e: "\<And>x. x = TypeError"
    by (rule error.exhaust) auto
  show ?thesis
  proof (cases "getDownloadUrlInfo R")
    case (Inl a)
    then show ?thesis
      using e by (simp add: DownloadButton_def Let_def bindE_def R [symmetric])
  next
    case info: (Inr info)
    show ?thesis
    proof (cases "hasDownloadPerm R")
      case (Inl a)
      then show ?thesis
        using e info by (simp add: DownloadButton_def Let_def bindE_def R [symmetric])
    next
      case perm: (Inr b)
      show ?thesis
      proof (cases "includesValue E (withDefault (p_allowedSources props)
                       (JArr [JStr SOURCE_TYPES_LOCAL, JStr SOURCE_TYPES_REMOTE])) (qdot R ''sourcetype'')")
        case (Inl a)
        then have "\<not> (\<exists>xs. withDefault (p_allowedSources props)
                       (JArr [JStr SOURCE_TYPES_LOCAL, JStr SOURCE_TYPES_REMOTE]) = JArr xs)"
          by auto
        with Inl info perm e show ?thesis
          by (simp add: DownloadButton_def Let_def bindE_def R [symmetric])
      next
        case allowed: (Inr a)
        from excluded info perm allowed show ?thesis
          by (auto simp: DownloadButton_def Let_def bindE_def R [symmetric] hasDownloadPerm_def
              split: if_splits)
      qed
    qed
  qed
qed


lemma sample_button_renders:
  "DownloadButton sampleEnv (sampleProps (JObj [(''perms'', JArr [JStr ''download_resourcebase'']), (''href'', JStr ''h''), (''sourcetype'', JStr ''LOCAL'')]) JUndefined)
     = Inr (DownloadLink ButtonWithTooltip
              [(''variant'', JUndefined), (''size'', JUndefined), (''download'', JBool True),
               (''href'', JStr ''h''), (''target'', JStr ''_blank''),
               (''rel'', JStr ''noopener noreferrer'')]
              (MessageId (JStr ''gnviewer.download'')))"
  by code_simp

text \<open>
  One resource for each of the four exclusions; \<open>sample_button_renders\<close> shows the same
  resource rendered when nothing excludes it.
\<close>

theorem DownloadButton_null_when_excluded_witness:
  "DownloadButton sampleEnv (sampleProps (JObj [(''perms'', JArr [JStr ''view_resourcebase'']), (''href'', JStr ''h''), (''sourcetype'', JStr ''LOCAL'')]) JUndefined) = Inr RenderedNull
   \<and> DownloadButton sampleEnv (sampleProps (JObj [(''perms'', JArr [JStr ''download_resourcebase'']), (''href'', JStr ''h''), (''sourcetype'', JStr ''LOCAL''), (''ptype'', JStr ''gxp_arcrestsource'')]) JUndefined) = Inr RenderedNull
   \<and> DownloadButton sampleEnv (sampleProps (JObj [(''perms'', JArr [JStr ''download_resourcebase'']), (''href'', JStr ''h''), (''sourcetype'', JStr ''OTHER'')]) JUndefined) = Inr RenderedNull
   \<and> DownloadButton sampleEnv (sampleProps (JObj [(''perms'', JArr [JStr ''download_resourcebase'']), (''href'', JStr ''h''), (''sourcetype'', JStr ''LOCAL'')]) (JStr ''menuItem'')) = Inr RenderedNull"
proof -
  have c1: "nullish (qdot (js_coalesce (p_resource (sampleProps (JObj [(''perms'', JArr [JStr ''view_resourcebase'']), (''href'', JStr ''h''), (''sourcetype'', JStr ''LOCAL'')]) JUndefined)) (p_resourceData (sampleProps (JObj [(''perms'', JArr [JStr ''view_resourcebase'']), (''href'', JStr ''h''), (''sourcetype'', JStr ''LOCAL'')]) JUndefined))) ''perms'')
       \<or> (\<exists>xs. qdot (js_coalesce (p_resource (sampleProps (JObj [(''perms'', JArr [JStr ''view_resourcebase'']), (''href'', JStr ''h''), (''sourcetype'', JStr ''LOCAL'')]) JUndefined)) (p_resourceData (sampleProps (JObj [(''perms'', JArr [JStr ''view_resourcebase'']), (''href'', JStr ''h''), (''sourcetype'', JStr ''LOCAL'')]) JUndefined))) ''perms'' = JArr xs
             \<and> JStr ''download_resourcebase'' \<notin> set xs)"
    by (simp add: sampleProps_def js_coalesce_def qdot_def ownProp_def withDefault_def GXP_PTYPES_REST_MAP_def GXP_PTYPES_REST_IMG_def SOURCE_TYPES_LOCAL_def SOURCE_TYPES_REMOTE_def getDownloadUrlInfo_def isDocumentExternalSource_def hrefUrl_def hasDownloadPerm_def ResourceTypes_DOCUMENT_def)
  have c2: "qdot (js_coalesce (p_resource (sampleProps (JObj [(''perms'', JArr [JStr ''download_resourcebase'']), (''href'', JStr ''h''), (''sourcetype'', JStr ''LOCAL''), (''ptype'', JStr ''gxp_arcrestsource'')]) JUndefined)) (p_resourceData (sampleProps (JObj [(''perms'', JArr [JStr ''download_resourcebase'']), (''href'', JStr ''h''), (''sourcetype'', JStr ''LOCAL''), (''ptype'', JStr ''gxp_arcrestsource'')]) JUndefined))) ''ptype''
              = JStr GXP_PTYPES_REST_MAP"
    by (simp add: sampleProps_def js_coalesce_def qdot_def ownProp_def withDefault_def GXP_PTYPES_REST_MAP_def GXP_PTYPES_REST_IMG_def SOURCE_TYPES_LOCAL_def SOURCE_TYPES_REMOTE_def getDownloadUrlInfo_def isDocumentExternalSource_def hrefUrl_def hasDownloadPerm_def ResourceTypes_DOCUMENT_def)
  have c3: "\<exists>xs. withDefault (p_allowedSources (sampleProps (JObj [(''perms'', JArr [JStr ''download_resourcebase'']), (''href'', JStr ''h''), (''sourcetype'', JStr ''OTHER'')]) JUndefined))
                  (JArr [JStr SOURCE_TYPES_LOCAL, JStr SOURCE_TYPES_REMOTE]) = JArr xs
              \<and> \<not> list_ex (\<lambda>x. strict_eq x
                     (qdot (js_coalesce (p_resource (sampleProps (JObj [(''perms'', JArr [JStr ''download_resourcebase'']), (''href'', JStr ''h''), (''sourcetype'', JStr ''OTHER'')]) JUndefined)) (p_resourceData (sampleProps (JObj [(''perms'', JArr [JStr ''download_resourcebase'']), (''href'', JStr ''h''), (''sourcetype'', JStr ''OTHER'')]) JUndefined))) ''sourcetype'')) xs"
    by (simp add: sampleProps_def js_coalesce_def qdot_def ownProp_def withDefault_def GXP_PTYPES_REST_MAP_def GXP_PTYPES_REST_IMG_def SOURCE_TYPES_LOCAL_def SOURCE_TYPES_REMOTE_def getDownloadUrlInfo_def isDocumentExternalSource_def hrefUrl_def hasDownloadPerm_def ResourceTypes_DOCUMENT_def)
  have c4: "withDefault (p_renderType (sampleProps (JObj [(''perms'', JArr [JStr ''download_resourcebase'']), (''href'', JStr ''h''), (''sourcetype'', JStr ''LOCAL'')]) (JStr ''menuItem''))) (JStr ''button'') = JStr ''menuItem''
           \<and> (\<exists>info. getDownloadUrlInfo (js_coalesce (p_resource (sampleProps (JObj [(''perms'', JArr [JStr ''download_resourcebase'']), (''href'', JStr ''h''), (''sourcetype'', JStr ''LOCAL'')]) (JStr ''menuItem''))) (p_resourceData (sampleProps (JObj [(''perms'', JArr [JStr ''download_resourcebase'']), (''href'', JStr ''h''), (''sourcetype'', JStr ''LOCAL'')]) (JStr ''menuItem'')))) = Inr info
                 \<and> \<not> truthy (qdot info ''ajaxSafe''))"
    by (simp add: sampleProps_def js_coalesce_def qdot_def ownProp_def withDefault_def GXP_PTYPES_REST_MAP_def GXP_PTYPES_REST_IMG_def SOURCE_TYPES_LOCAL_def SOURCE_TYPES_REMOTE_def getDownloadUrlInfo_def isDocumentExternalSource_def hrefUrl_def hasDownloadPerm_def ResourceTypes_DOCUMENT_def)
  from c1 DownloadButton_null_when_excluded [OF refl, of "sampleProps (JObj [(''perms'', JArr [JStr ''view_resourcebase'']), (''href'', JStr ''h''), (''sourcetype'', JStr ''LOCAL'')]) JUndefined" sampleEnv]
  have r1: "DownloadButton sampleEnv (sampleProps (JObj [(''perms'', JArr [JStr ''view_resourcebase'']), (''href'', JStr ''h''), (''sourcetype'', JStr ''LOCAL'')]) JUndefined) = Inr RenderedNull"
    by (auto simp add: sampleProps_def js_coalesce_def qdot_def ownProp_def withDefault_def GXP_PTYPES_REST_MAP_def GXP_PTYPES_REST_IMG_def SOURCE_TYPES_LOCAL_def SOURCE_TYPES_REMOTE_def getDownloadUrlInfo_def isDocumentExternalSource_def hrefUrl_def hasDownloadPerm_def ResourceTypes_DOCUMENT_def)
  from c2 DownloadButton_null_when_excluded [OF refl, of "sampleProps (JObj [(''perms'', JArr [JStr ''download_resourcebase'']), (''href'', JStr ''h''), (''sourcetype'', JStr ''LOCAL''), (''ptype'', JStr ''gxp_arcrestsource'')]) JUndefined" sampleEnv]
  have r2: "DownloadButton sampleEnv (sampleProps (JObj [(''perms'', JArr [JStr ''download_resourcebase'']), (''href'', JStr ''h''), (''sourcetype'', JStr ''LOCAL''), (''ptype'', JStr ''gxp_arcrestsource'')]) JUndefined) = Inr RenderedNull"
    by (auto simp add: sampleProps_def js_coalesce_def qdot_def ownProp_def withDefault_def GXP_PTYPES_REST_MAP_def GXP_PTYPES_REST_IMG_def SOURCE_TYPES_LOCAL_def SOURCE_TYPES_REMOTE_def getDownloadUrlInfo_def isDocumentExternalSource_def hrefUrl_def hasDownloadPerm_def ResourceTypes_DOCUMENT_def)
  from c3 DownloadButton_null_when_excluded [OF refl, of "sampleProps (JObj [(''perms'', JArr [JStr ''download_resourcebase'']), (''href'', JStr ''h''), (''sourcetype'', JStr ''OTHER'')]) JUndefined" sampleEnv]
  have r3: "DownloadButton sampleEnv (sampleProps (JObj [(''perms'', JArr [JStr ''download_resourcebase'']), (''href'', JStr ''h''), (''sourcetype'', JStr ''OTHER'')]) JUndefined) = Inr RenderedNull"
    by (auto simp add: sampleProps_def js_coalesce_def qdot_def ownProp_def withDefault_def GXP_PTYPES_REST_MAP_def GXP_PTYPES_REST_IMG_def SOURCE_TYPES_LOCAL_def SOURCE_TYPES_REMOTE_def getDownloadUrlInfo_def isDocumentExternalSource_def hrefUrl_def hasDownloadPerm_def ResourceTypes_DOCUMENT_def)
  from c4 DownloadButton_null_when_excluded [OF refl, of "sampleProps (JObj [(''perms'', JArr [JStr ''download_resourcebase'']), (''href'', JStr ''h''), (''sourcetype'', JStr ''LOCAL'')]) (JStr ''menuItem'')" sampleEnv]
  have r4: "DownloadButton sampleEnv (sampleProps (JObj [(''perms'', JArr [JStr ''download_resourcebase'']), (''href'', JStr ''h''), (''sourcetype'', JStr ''LOCAL'')]) (JStr ''menuItem'')) = Inr RenderedNull"
    by (auto simp add: sampleProps_def js_coalesce_def qdot_def ownProp_def withDefault_def GXP_PTYPES_REST_MAP_def GXP_PTYPES_REST_IMG_def SOURCE_TYPES_LOCAL_def SOURCE_TYPES_REMOTE_def getDownloadUrlInfo_def isDocumentExternalSource_def hrefUrl_def hasDownloadPerm_def ResourceTypes_DOCUMENT_def)
  from r1 r2 r3 r4 show ?thesis by simp
qed


section \<open>Properties: map layers\<close>

lemma enumerate_nth_map:
  "i < length xs \<Longrightarrow> map (\<lambda>(j, x). f j x) (enumerate k xs) ! i = f (k + i) (xs ! i)"
  by (simp add: enumerate_eq_zip)

lemma geoNodeMapLayer_props:
  "truthy (mapLayerOf layer) \<Longrightarrow>
     getProp (geoNodeMapLayer i layer) ''pk'' = getProp (mapLayerOf layer) ''pk''
     \<and> getProp (getProp (geoNodeMapLayer i layer) ''extra_params'') ''msId'' = getProp layer ''id''
     \<and> getProp (geoNodeMapLayer i layer) ''order'' = JNum (real i)"
  by (cases layer; cases "getProp layer ''extendedParams''")
     (auto simp: geoNodeMapLayer_def getProp_objLit mapLayerOf_def qdot_def ownProp_def)

lemma getGeoNodeMapLayers_entries:
  assumes "getGeoNodeMapLayers data = Inr entries"
  shows "\<exists>ls. asArray (layersOf data) = Inr ls
          \<and> entries = map (\<lambda>(i, layer). geoNodeMapLayer i layer)
                        (enumerate 0 (filter (\<lambda>layer. truthy (mapLayerOf layer)) ls))"
  using assms by (auto simp: getGeoNodeMapLayers_def bindE_def split: sum.splits)

lemma filterE_isNotBackground:
  "filterE isNotBackground ls = Inr others \<Longrightarrow>
     others = filter (\<lambda>l. \<not> strict_eq (getProp l ''group'') (JStr ''background'')) ls"
  by (induction ls arbitrary: others)
     (auto simp: isNotBackground_def bindE_def dot_def split: sum.splits if_splits)

lemma mapE_attachMapLayer:
  "mapE (attachMapLayer (JArr ms)) ls = Inr (map (attachedLayer ms) ls)"
  by (induction ls) (auto simp: attachMapLayer_def bindE_def)

lemma asArray_Inr: "asArray v = Inr xs \<longleftrightarrow> v = JArr xs"
  by (cases v) auto

lemma toMapStoreMapConfig_layers:
  assumes "toMapStoreMapConfig E n resource baseConfig = (Inr cfg, n')"
  shows "\<exists>ms ls bg added.
           withDefault (getProp (js_or resource (JObj [])) ''maplayers'') (JArr []) = JArr ms
           \<and> layersOf (getProp (js_or resource (JObj [])) ''data'') = JArr ls
           \<and> getProp (getProp cfg ''map'') ''layers''
               = JArr (bg
                       @ filter truthy (map (attachedLayer ms)
                           (filter (\<lambda>l. \<not> strict_eq (getProp l ''group'') (JStr ''background'')) ls))
                       @ added)"
proof -
  let ?r = "js_or resource (JObj [])"
  let ?ml = "withDefault (getProp ?r ''maplayers'') (JArr [])"
  let ?data = "getProp ?r ''data''"
  from assms obtain baseLayers bbg ls dbg others attached ms bg lays missing added where
    ls: "asArray (layersOf ?data) = Inr ls"
    and others: "filterE isNotBackground ls = Inr others"
    and attached: "mapE (attachMapLayer ?ml) others = Inr attached"
    and ms: "asArray ?ml = Inr ms"
    and lays: "lays = filter truthy attached"
    and cfg: "cfg = objLit (spread ?data
                      @ [(''map'',
                          objLit (spread (qdot ?data ''map'')
                            @ [(''layers'', JArr (bg @ lays @ added)),
                               (''sources'',
                                objLit (spread (qdot (qdot ?data ''map'') ''sources'')
                                        @ spread (qdot (qdot baseConfig ''map'') ''sources'')))]))])"
    by (auto simp: toMapStoreMapConfig_def Let_def bindE_def split: sum.splits prod.splits)
  from ms have ms': "?ml = JArr ms" by (simp add: asArray_Inr)
  from ls have ls': "layersOf ?data = JArr ls" by (simp add: asArray_Inr)
  from attached have att: "attached = map (attachedLayer ms) others"
    by (simp add: ms' mapE_attachMapLayer)
  have "getProp (getProp cfg ''map'') ''layers'' = JArr (bg @ lays @ added)"
    by (simp add: cfg getProp_objLit)
  with ms' ls' att lays filterE_isNotBackground [OF others] show ?thesis
    by blast
qed


lemma objLit_not_nullish [simp]: "\<not> nullish (objLit ps)" "truthy (objLit ps)"
  by (simp_all add: objLit_def)

lemma strict_eq_imp_eq: "strict_eq a b \<Longrightarrow> a = b"
  by (cases a) auto

lemma strict_eq_refl: "isPrimitive a \<Longrightarrow> strict_eq a a"
  by (cases a) auto

lemma matchesLayer_truthy: "matchesLayer layer m \<Longrightarrow> truthy m"
  by (cases m) (auto simp: matchesLayer_def qdot_def dest!: strict_eq_imp_eq)

lemma attachedLayer_found:
  assumes "List.find (matchesLayer layer) ms = Some m"
  shows "attachedLayer ms layer =
           objLit (spread layer
                   @ spreadIf (JBool (strict_eq (getProp layer ''type'') (JStr ''wms'')))
                       [(''style'', js_or (js_or (getProp m ''current_style'') (getProp layer ''style''))
                                          (JStr []))]
                   @ [(''extendedParams'',
                       objLit (spread (getProp layer ''extendedParams'') @ [(''mapLayer'', m)]))])"
    and "truthy (attachedLayer ms layer)"
    and "mapLayerOf (attachedLayer ms layer) = m"
    and "getProp layer ''type'' = JStr ''wms'' \<Longrightarrow>
           getProp (attachedLayer ms layer) ''style'' =
             (if truthy (getProp m ''current_style'') then getProp m ''current_style''
              else js_or (getProp layer ''style'') (JStr []))"
proof -
  from assms have "matchesLayer layer m" by (rule find_Some_holds)
  then have t: "truthy m" by (rule matchesLayer_truthy)
  with assms show a: "attachedLayer ms layer =
           objLit (spread layer
                   @ spreadIf (JBool (strict_eq (getProp layer ''type'') (JStr ''wms'')))
                       [(''style'', js_or (js_or (getProp m ''current_style'') (getProp layer ''style''))
                                          (JStr []))]
                   @ [(''extendedParams'',
                       objLit (spread (getProp layer ''extendedParams'') @ [(''mapLayer'', m)]))])"
    by (simp add: attachedLayer_def findOrUndefined_def)
  show "truthy (attachedLayer ms layer)" by (simp add: a)
  show "mapLayerOf (attachedLayer ms layer) = m"
    by (simp add: a mapLayerOf_def qdot_def getProp_objLit)
  show "getProp (attachedLayer ms layer) ''style'' =
             (if truthy (getProp m ''current_style'') then getProp m ''current_style''
              else js_or (getProp layer ''style'') (JStr []))"
    if "getProp layer ''type'' = JStr ''wms''"
    using that by (simp add: a getProp_objLit js_or_def)
qed

lemma entry_found:
  assumes entries: "entries = map (\<lambda>(i, layer). geoNodeMapLayer i layer)
                        (enumerate 0 (filter (\<lambda>layer. truthy (mapLayerOf layer)) ls))"
    and layer: "layer \<in> set ls" "truthy (mapLayerOf layer)"
    and ident: "isPrimitive (getProp layer ''id'')" "getProp layer ''id'' \<noteq> JUndefined"
  shows "\<exists>m. List.find (matchesLayer layer) entries = Some m
           \<and> qdot (qdot m ''extra_params'') ''msId'' = getProp layer ''id''"
proof -
  let ?fs = "filter (\<lambda>layer. truthy (mapLayerOf layer)) ls"
  from layer have "layer \<in> set ?fs" by simp
  then obtain i where i: "i < length ?fs" "?fs ! i = layer"
    by (metis in_set_conv_nth)
  then have e: "entries ! i = geoNodeMapLayer i layer" "i < length entries"
    by (simp_all add: entries nth_enumerate_eq)
  from geoNodeMapLayer_props [OF layer(2), of i] ident
  have "matchesLayer layer (geoNodeMapLayer i layer)"
    by (simp add: matchesLayer_def qdot_def geoNodeMapLayer_def getProp_objLit strict_eq_refl)
  with e have "\<exists>x \<in> set entries. matchesLayer layer x"
    by (metis nth_mem)
  then obtain m where m: "List.find (matchesLayer layer) entries = Some m"
    by (cases "List.find (matchesLayer layer) entries") (auto simp: find_None_iff)
  then have "matchesLayer layer m" by (rule find_Some_holds)
  then have "qdot (qdot m ''extra_params'') ''msId'' = getProp layer ''id''"
    by (auto simp: matchesLayer_def dest: strict_eq_imp_eq)
  with m show ?thesis by blast
qed


text \<open>
  Claim C2, as the code has it. \<open>getGeoNodeMapLayers\<close> returns one entry for each layer of
  \<open>data.map.layers\<close> that has an \<open>extendedParams.mapLayer\<close>, in order: its \<open>pk\<close> is the
  \<open>pk\<close> of that \<open>mapLayer\<close>, its \<open>extra_params.msId\<close> the layer's \<open>id\<close>, and its \<open>order\<close> its
  position among those layers (its index in the result, not the layer's index in
  \<open>data.map.layers\<close>); and every such layer with a defined primitive \<open>id\<close> finds, among
  the entries, one whose \<open>msId\<close> is its \<open>id\<close>. \<open>toMapStoreMapConfig\<close> puts, between the
  background layers and the layers added for unmatched entries, the non-background layers
  of \<open>data.map.layers\<close> mapped by \<open>attachedLayer\<close>; a layer for which an entry of
  \<open>maplayers\<close> matches is kept with the first such entry as its
  \<open>extendedParams.mapLayer\<close>, and when it is a \<open>wms\<close> layer its \<open>style\<close> becomes the entry's
  \<open>current_style\<close> if that is non-empty (else the layer's own style, else the empty
  string).
\<close>

theorem map_layers_reconcile:
  "(getGeoNodeMapLayers data = Inr entries \<longrightarrow>
      (\<exists>ls. layersOf data = JArr ls
         \<and> length entries = length (filter (\<lambda>l. truthy (mapLayerOf l)) ls)
         \<and> (\<forall>i < length entries.
               getProp (entries ! i) ''pk''
                 = getProp (mapLayerOf (filter (\<lambda>l. truthy (mapLayerOf l)) ls ! i)) ''pk''
               \<and> getProp (getProp (entries ! i) ''extra_params'') ''msId''
                 = getProp (filter (\<lambda>l. truthy (mapLayerOf l)) ls ! i) ''id''
               \<and> getProp (entries ! i) ''order'' = JNum (real i))
         \<and> (\<forall>layer \<in> set ls.
               truthy (mapLayerOf layer) \<and> isPrimitive (getProp layer ''id'')
               \<and> getProp layer ''id'' \<noteq> JUndefined \<longrightarrow>
               (\<exists>m. List.find (matchesLayer layer) entries = Some m
                  \<and> qdot (qdot m ''extra_params'') ''msId'' = getProp layer ''id''))))
   \<and> (toMapStoreMapConfig E n resource baseConfig = (Inr cfg, n') \<longrightarrow>
      (\<exists>ms ls bg added.
         withDefault (getProp (js_or resource (JObj [])) ''maplayers'') (JArr []) = JArr ms
         \<and> layersOf (getProp (js_or resource (JObj [])) ''data'') = JArr ls
         \<and> getProp (getProp cfg ''map'') ''layers''
             = JArr (bg
                     @ filter truthy (map (attachedLayer ms)
                         (filter (\<lambda>l. \<not> strict_eq (getProp l ''group'') (JStr ''background'')) ls))
                     @ added)
         \<and> (\<forall>layer m. List.find (matchesLayer layer) ms = Some m \<longrightarrow>
               truthy (attachedLayer ms layer)
               \<and> mapLayerOf (attachedLayer ms layer) = m
               \<and> (getProp layer ''type'' = JStr ''wms'' \<longrightarrow>
                    getProp (attachedLayer ms layer) ''style'' =
                      (if truthy (getProp m ''current_style'') then getProp m ''current_style''
                       else js_or (getProp layer ''style'') (JStr []))))))"
proof (intro conjI impI)
  assume a: "getGeoNodeMapLayers data = Inr entries"
  from getGeoNodeMapLayers_entries [OF a] obtain ls where
    ls: "asArray (layersOf data) = Inr ls"
    and entries: "entries = map (\<lambda>(i, layer). geoNodeMapLayer i layer)
                        (enumerate 0 (filter (\<lambda>layer. truthy (mapLayerOf layer)) ls))"
    by blast
  let ?fs = "filter (\<lambda>l. truthy (mapLayerOf l)) ls"
  have len: "length entries = length ?fs"
    by (simp add: entries)
  have each: "getProp (entries ! i) ''pk'' = getProp (mapLayerOf (?fs ! i)) ''pk''
               \<and> getProp (getProp (entries ! i) ''extra_params'') ''msId'' = getProp (?fs ! i) ''id''
               \<and> getProp (entries ! i) ''order'' = JNum (real i)"
    if i: "i < length entries" for i
  proof -
    from i len have "i < length ?fs" by simp
    then have "?fs ! i \<in> set ?fs" by (rule nth_mem)
    then have t: "truthy (mapLayerOf (?fs ! i))" by simp
    from i len have "entries ! i = geoNodeMapLayer i (?fs ! i)"
      by (simp add: entries nth_enumerate_eq)
    with geoNodeMapLayer_props [OF t, of i] show ?thesis by simp
  qed
  from ls have l: "layersOf data = JArr ls" by (simp add: asArray_Inr)
  from each have eachA: "\<forall>i < length entries.
               getProp (entries ! i) ''pk''
                 = getProp (mapLayerOf (filter (\<lambda>l. truthy (mapLayerOf l)) ls ! i)) ''pk''
               \<and> getProp (getProp (entries ! i) ''extra_params'') ''msId''
                 = getProp (filter (\<lambda>l. truthy (mapLayerOf l)) ls ! i) ''id''
               \<and> getProp (entries ! i) ''order'' = JNum (real i)"
    by blast
  have found: "\<forall>layer \<in> set ls.
               truthy (mapLayerOf layer) \<and> isPrimitive (getProp layer ''id'')
               \<and> getProp layer ''id'' \<noteq> JUndefined \<longrightarrow>
               (\<exists>m. List.find (matchesLayer layer) entries = Some m
                  \<and> qdot (qdot m ''extra_params'') ''msId'' = getProp layer ''id'')"
    using entry_found [OF entries] by blast
  from l len eachA found
  show "\<exists>ls. layersOf data = JArr ls
         \<and> length entries = length (filter (\<lambda>l. truthy (mapLayerOf l)) ls)
         \<and> (\<forall>i < length entries.
               getProp (entries ! i) ''pk''
                 = getProp (mapLayerOf (filter (\<lambda>l. truthy (mapLayerOf l)) ls ! i)) ''pk''
               \<and> getProp (getProp (entries ! i) ''extra_params'') ''msId''
                 = getProp (filter (\<lambda>l. truthy (mapLayerOf l)) ls ! i) ''id''
               \<and> getProp (entries ! i) ''order'' = JNum (real i))
         \<and> (\<forall>layer \<in> set ls.
               truthy (mapLayerOf layer) \<and> isPrimitive (getProp layer ''id'')
               \<and> getProp layer ''id'' \<noteq> JUndefined \<longrightarrow>
               (\<exists>m. List.find (matchesLayer layer) entries = Some m
                  \<and> qdot (qdot m ''extra_params'') ''msId'' = getProp layer ''id''))"
    by (intro exI [of _ ls] conjI)
next
  assume a: "toMapStoreMapConfig E n resource baseConfig = (Inr cfg, n')"
  from toMapStoreMapConfig_layers [OF a] obtain ms ls bg added where
    ms: "withDefault (getProp (js_or resource (JObj [])) ''maplayers'') (JArr []) = JArr ms"
    and ls: "layersOf (getProp (js_or resource (JObj [])) ''data'') = JArr ls"
    and lays: "getProp (getProp cfg ''map'') ''layers''
             = JArr (bg
                     @ filter truthy (map (attachedLayer ms)
                         (filter (\<lambda>l. \<not> strict_eq (getProp l ''group'') (JStr ''background'')) ls))
                     @ added)"
    by blast
  have each: "\<forall>layer m. List.find (matchesLayer layer) ms = Some m \<longrightarrow>
               truthy (attachedLayer ms layer)
               \<and> mapLayerOf (attachedLayer ms layer) = m
               \<and> (getProp layer ''type'' = JStr ''wms'' \<longrightarrow>
                    getProp (attachedLayer ms layer) ''style'' =
                      (if truthy (getProp m ''current_style'') then getProp m ''current_style''
                       else js_or (getProp layer ''style'') (JStr [])))"
    by (intro allI impI conjI attachedLayer_found(2,3,4))
  from ms ls lays each
  show "\<exists>ms ls bg added.
         withDefault (getProp (js_or resource (JObj [])) ''maplayers'') (JArr []) = JArr ms
         \<and> layersOf (getProp (js_or resource (JObj [])) ''data'') = JArr ls
         \<and> getProp (getProp cfg ''map'') ''layers''
             = JArr (bg
                     @ filter truthy (map (attachedLayer ms)
                         (filter (\<lambda>l. \<not> strict_eq (getProp l ''group'') (JStr ''background'')) ls))
                     @ added)
         \<and> (\<forall>layer m. List.find (matchesLayer layer) ms = Some m \<longrightarrow>
               truthy (attachedLayer ms layer)
               \<and> mapLayerOf (attachedLayer ms layer) = m
               \<and> (getProp layer ''type'' = JStr ''wms'' \<longrightarrow>
                    getProp (attachedLayer ms layer) ''style'' =
                      (if truthy (getProp m ''current_style'') then getProp m ''current_style''
                       else js_or (getProp layer ''style'') (JStr []))))"
    by (intro exI [of _ ms] exI [of _ ls] exI [of _ bg] exI [of _ added] conjI)
qed

lemma sample_entries:
  "getGeoNodeMapLayers (JObj [(''map'', JObj [(''layers'',
      JArr [JObj [(''id'', JStr ''bg''), (''group'', JStr ''background'')],
            JObj [(''id'', JStr ''l1''), (''type'', JStr ''wms''), (''style'', JStr ''s0''),
            (''extendedParams'', JObj [(''mapLayer'', JObj [(''pk'', JNum 7)])])]])])])
     = Inr [JObj [(''pk'', JNum 7), (''current_style'', JStr ''s0''),
            (''extra_params'', JObj [(''msId'', JStr ''l1'')]), (''name'', JStr []),
            (''order'', JNum 0), (''opacity'', JNum 1), (''visibility'', JUndefined)]]"
  by code_simp

lemma sample_config:
  "toMapStoreMapConfig sampleEnv 0 (JObj [(''maplayers'', JArr [JObj [(''pk'', JNum 7), (''current_style'', JStr ''s1''),
            (''extra_params'', JObj [(''msId'', JStr ''l1'')]), (''name'', JStr []),
            (''order'', JNum 0), (''opacity'', JNum 1), (''visibility'', JUndefined)]]),
         (''data'', JObj [(''map'', JObj [(''layers'',
      JArr [JObj [(''id'', JStr ''bg''), (''group'', JStr ''background'')],
            JObj [(''id'', JStr ''l1''), (''type'', JStr ''wms''), (''style'', JStr ''s0''),
            (''extendedParams'', JObj [(''mapLayer'', JObj [(''pk'', JNum 7)])])]])])])]) JUndefined
     = (Inr (JObj [(''map'', JObj [(''layers'', JArr [JObj [(''id'', JStr ''l1''), (''type'', JStr ''wms''), (''style'', JStr ''s1''),
            (''extendedParams'', JObj [(''mapLayer'', JObj [(''pk'', JNum 7), (''current_style'', JStr ''s1''),
            (''extra_params'', JObj [(''msId'', JStr ''l1'')]), (''name'', JStr []),
            (''order'', JNum 0), (''opacity'', JNum 1), (''visibility'', JUndefined)])])]]),
                          (''sources'', JObj [])])]), 0)"
  by code_simp

lemma sample_attached:
  "attachedLayer [JObj [(''pk'', JNum 7), (''current_style'', JStr ''s1''),
            (''extra_params'', JObj [(''msId'', JStr ''l1'')]), (''name'', JStr []),
            (''order'', JNum 0), (''opacity'', JNum 1), (''visibility'', JUndefined)]] (JObj [(''id'', JStr ''l1''), (''type'', JStr ''wms''), (''style'', JStr ''s0''),
            (''extendedParams'', JObj [(''mapLayer'', JObj [(''pk'', JNum 7)])])])
     = JObj [(''id'', JStr ''l1''), (''type'', JStr ''wms''), (''style'', JStr ''s1''),
            (''extendedParams'', JObj [(''mapLayer'', JObj [(''pk'', JNum 7), (''current_style'', JStr ''s1''),
            (''extra_params'', JObj [(''msId'', JStr ''l1'')]), (''name'', JStr []),
            (''order'', JNum 0), (''opacity'', JNum 1), (''visibility'', JUndefined)])])]"
  by code_simp

lemma sample_find:
  "List.find (matchesLayer (JObj [(''id'', JStr ''l1''), (''type'', JStr ''wms''), (''style'', JStr ''s0''),
            (''extendedParams'', JObj [(''mapLayer'', JObj [(''pk'', JNum 7)])])])) [JObj [(''pk'', JNum 7), (''current_style'', JStr ''s1''),
            (''extra_params'', JObj [(''msId'', JStr ''l1'')]), (''name'', JStr []),
            (''order'', JNum 0), (''opacity'', JNum 1), (''visibility'', JUndefined)]]
     = Some (JObj [(''pk'', JNum 7), (''current_style'', JStr ''s1''),
            (''extra_params'', JObj [(''msId'', JStr ''l1'')]), (''name'', JStr []),
            (''order'', JNum 0), (''opacity'', JNum 1), (''visibility'', JUndefined)])"
  by code_simp

text \<open>
  A map with a background layer and one \<open>wms\<close> dataset layer: its entry, and the layer
  re-attached from a resource whose entry carries another \<open>current_style\<close>.
\<close>

theorem map_layers_reconcile_witness:
  "getGeoNodeMapLayers (JObj [(''map'', JObj [(''layers'',
      JArr [JObj [(''id'', JStr ''bg''), (''group'', JStr ''background'')],
            JObj [(''id'', JStr ''l1''), (''type'', JStr ''wms''), (''style'', JStr ''s0''),
            (''extendedParams'', JObj [(''mapLayer'', JObj [(''pk'', JNum 7)])])]])])])
     = Inr [JObj [(''pk'', JNum 7), (''current_style'', JStr ''s0''),
            (''extra_params'', JObj [(''msId'', JStr ''l1'')]), (''name'', JStr []),
            (''order'', JNum 0), (''opacity'', JNum 1), (''visibility'', JUndefined)]]
   \<and> getProp ([JObj [(''pk'', JNum 7), (''current_style'', JStr ''s0''),
            (''extra_params'', JObj [(''msId'', JStr ''l1'')]), (''name'', JStr []),
            (''order'', JNum 0), (''opacity'', JNum 1), (''visibility'', JUndefined)]] ! 0) ''order'' = JNum (real (0::nat))
   \<and> toMapStoreMapConfig sampleEnv 0 (JObj [(''maplayers'', JArr [JObj [(''pk'', JNum 7), (''current_style'', JStr ''s1''),
            (''extra_params'', JObj [(''msId'', JStr ''l1'')]), (''name'', JStr []),
            (''order'', JNum 0), (''opacity'', JNum 1), (''visibility'', JUndefined)]]),
         (''data'', JObj [(''map'', JObj [(''layers'',
      JArr [JObj [(''id'', JStr ''bg''), (''group'', JStr ''background'')],
            JObj [(''id'', JStr ''l1''), (''type'', JStr ''wms''), (''style'', JStr ''s0''),
            (''extendedParams'', JObj [(''mapLayer'', JObj [(''pk'', JNum 7)])])]])])])]) JUndefined
     = (Inr (JObj [(''map'', JObj [(''layers'', JArr [JObj [(''id'', JStr ''l1''), (''type'', JStr ''wms''), (''style'', JStr ''s1''),
            (''extendedParams'', JObj [(''mapLayer'', JObj [(''pk'', JNum 7), (''current_style'', JStr ''s1''),
            (''extra_params'', JObj [(''msId'', JStr ''l1'')]), (''name'', JStr []),
            (''order'', JNum 0), (''opacity'', JNum 1), (''visibility'', JUndefined)])])]]),
                          (''sources'', JObj [])])]), 0)
   \<and> List.find (matchesLayer (JObj [(''id'', JStr ''l1''), (''type'', JStr ''wms''), (''style'', JStr ''s0''),
            (''extendedParams'', JObj [(''mapLayer'', JObj [(''pk'', JNum 7)])])])) [JObj [(''pk'', JNum 7), (''current_style'', JStr ''s1''),
            (''extra_params'', JObj [(''msId'', JStr ''l1'')]), (''name'', JStr []),
            (''order'', JNum 0), (''opacity'', JNum 1), (''visibility'', JUndefined)]]
     = Some (JObj [(''pk'', JNum 7), (''current_style'', JStr ''s1''),
            (''extra_params'', JObj [(''msId'', JStr ''l1'')]), (''name'', JStr []),
            (''order'', JNum 0), (''opacity'', JNum 1), (''visibility'', JUndefined)])
   \<and> mapLayerOf (attachedLayer [JObj [(''pk'', JNum 7), (''current_style'', JStr ''s1''),
            (''extra_params'', JObj [(''msId'', JStr ''l1'')]), (''name'', JStr []),
            (''order'', JNum 0), (''opacity'', JNum 1), (''visibility'', JUndefined)]] (JObj [(''id'', JStr ''l1''), (''type'', JStr ''wms''), (''style'', JStr ''s0''),
            (''extendedParams'', JObj [(''mapLayer'', JObj [(''pk'', JNum 7)])])]))
     = JObj [(''pk'', JNum 7), (''current_style'', JStr ''s1''),
            (''extra_params'', JObj [(''msId'', JStr ''l1'')]), (''name'', JStr []),
            (''order'', JNum 0), (''opacity'', JNum 1), (''visibility'', JUndefined)]
   \<and> getProp (attachedLayer [JObj [(''pk'', JNum 7), (''current_style'', JStr ''s1''),
            (''extra_params'', JObj [(''msId'', JStr ''l1'')]), (''name'', JStr []),
            (''order'', JNum 0), (''opacity'', JNum 1), (''visibility'', JUndefined)]] (JObj [(''id'', JStr ''l1''), (''type'', JStr ''wms''), (''style'', JStr ''s0''),
            (''extendedParams'', JObj [(''mapLayer'', JObj [(''pk'', JNum 7)])])])) ''style'' = JStr ''s1''"
proof -
  let ?D = "JObj [(''map'', JObj [(''layers'',
      JArr [JObj [(''id'', JStr ''bg''), (''group'', JStr ''background'')],
            JObj [(''id'', JStr ''l1''), (''type'', JStr ''wms''), (''style'', JStr ''s0''),
            (''extendedParams'', JObj [(''mapLayer'', JObj [(''pk'', JNum 7)])])]])])]"
  let ?E = "JObj [(''pk'', JNum 7), (''current_style'', JStr ''s0''),
            (''extra_params'', JObj [(''msId'', JStr ''l1'')]), (''name'', JStr []),
            (''order'', JNum 0), (''opacity'', JNum 1), (''visibility'', JUndefined)]"
  let ?E1 = "JObj [(''pk'', JNum 7), (''current_style'', JStr ''s1''),
            (''extra_params'', JObj [(''msId'', JStr ''l1'')]), (''name'', JStr []),
            (''order'', JNum 0), (''opacity'', JNum 1), (''visibility'', JUndefined)]"
  let ?L1 = "JObj [(''id'', JStr ''l1''), (''type'', JStr ''wms''), (''style'', JStr ''s0''),
            (''extendedParams'', JObj [(''mapLayer'', JObj [(''pk'', JNum 7)])])]"
  let ?RES = "JObj [(''maplayers'', JArr [JObj [(''pk'', JNum 7), (''current_style'', JStr ''s1''),
            (''extra_params'', JObj [(''msId'', JStr ''l1'')]), (''name'', JStr []),
            (''order'', JNum 0), (''opacity'', JNum 1), (''visibility'', JUndefined)]]),
         (''data'', JObj [(''map'', JObj [(''layers'',
      JArr [JObj [(''id'', JStr ''bg''), (''group'', JStr ''background'')],
            JObj [(''id'', JStr ''l1''), (''type'', JStr ''wms''), (''style'', JStr ''s0''),
            (''extendedParams'', JObj [(''mapLayer'', JObj [(''pk'', JNum 7)])])]])])])]"
  let ?CFG = "JObj [(''map'', JObj [(''layers'', JArr [JObj [(''id'', JStr ''l1''), (''type'', JStr ''wms''), (''style'', JStr ''s1''),
            (''extendedParams'', JObj [(''mapLayer'', JObj [(''pk'', JNum 7), (''current_style'', JStr ''s1''),
            (''extra_params'', JObj [(''msId'', JStr ''l1'')]), (''name'', JStr []),
            (''order'', JNum 0), (''opacity'', JNum 1), (''visibility'', JUndefined)])])]]),
                          (''sources'', JObj [])])]"
  from map_layers_reconcile [THEN conjunct1, THEN mp, OF sample_entries]
  obtain ls where "\<forall>i < length [?E].
               getProp ([?E] ! i) ''pk''
                 = getProp (mapLayerOf (filter (\<lambda>l. truthy (mapLayerOf l)) ls ! i)) ''pk''
               \<and> getProp (getProp ([?E] ! i) ''extra_params'') ''msId''
                 = getProp (filter (\<lambda>l. truthy (mapLayerOf l)) ls ! i) ''id''
               \<and> getProp ([?E] ! i) ''order'' = JNum (real i)"
    by (elim exE conjE)
  then have o: "getProp ([?E] ! 0) ''order'' = JNum (real (0::nat))"
    by (elim allE [of _ 0] impE conjE) simp_all
  from map_layers_reconcile [THEN conjunct2, THEN mp, OF sample_config]
  obtain ms where
    ms: "withDefault (getProp (js_or ?RES (JObj [])) ''maplayers'') (JArr []) = JArr ms"
    and each: "\<forall>layer m. List.find (matchesLayer layer) ms = Some m \<longrightarrow>
               truthy (attachedLayer ms layer)
               \<and> mapLayerOf (attachedLayer ms layer) = m
               \<and> (getProp layer ''type'' = JStr ''wms'' \<longrightarrow>
                    getProp (attachedLayer ms layer) ''style'' =
                      (if truthy (getProp m ''current_style'') then getProp m ''current_style''
                       else js_or (getProp layer ''style'') (JStr [])))"
    by (elim exE conjE)
  from ms have ms': "ms = [?E1]"
    by (simp add: js_or_def withDefault_def ownProp_def)
  from each [unfolded ms', rule_format, OF sample_find]
  have m: "mapLayerOf (attachedLayer [?E1] ?L1) = ?E1"
    and st: "getProp (attachedLayer [?E1] ?L1) ''style'' = JStr ''s1''"
    by (simp_all add: ownProp_def)
  from o m st sample_entries sample_config sample_find show ?thesis
    by (intro conjI)
qed

text \<open>
  Claim C2 as it was stated fails on \<open>order\<close>: the dataset layer is at index 1 of
  \<open>data.map.layers\<close>, after the background layer, and its entry has \<open>order\<close> 0.
\<close>

theorem order_is_not_index_in_map_layers:
  "layersOf (JObj [(''map'', JObj [(''layers'',
      JArr [JObj [(''id'', JStr ''bg''), (''group'', JStr ''background'')],
            JObj [(''id'', JStr ''l1''), (''type'', JStr ''wms''), (''style'', JStr ''s0''),
            (''extendedParams'', JObj [(''mapLayer'', JObj [(''pk'', JNum 7)])])]])])])
     = JArr [JObj [(''id'', JStr ''bg''), (''group'', JStr ''background'')],
             JObj [(''id'', JStr ''l1''), (''type'', JStr ''wms''), (''style'', JStr ''s0''),
            (''extendedParams'', JObj [(''mapLayer'', JObj [(''pk'', JNum 7)])])]]
   \<and> truthy (mapLayerOf (JObj [(''id'', JStr ''l1''), (''type'', JStr ''wms''), (''style'', JStr ''s0''),
            (''extendedParams'', JObj [(''mapLayer'', JObj [(''pk'', JNum 7)])])]))
   \<and> getProp (JObj [(''id'', JStr ''l1''), (''type'', JStr ''wms''), (''style'', JStr ''s0''),
            (''extendedParams'', JObj [(''mapLayer'', JObj [(''pk'', JNum 7)])])]) ''id'' \<noteq> JUndefined
   \<and> [JObj [(''id'', JStr ''bg''), (''group'', JStr ''background'')],
       JObj [(''id'', JStr ''l1''), (''type'', JStr ''wms''), (''style'', JStr ''s0''),
            (''extendedParams'', JObj [(''mapLayer'', JObj [(''pk'', JNum 7)])])]] ! 1
     = JObj [(''id'', JStr ''l1''), (''type'', JStr ''wms''), (''style'', JStr ''s0''),
            (''extendedParams'', JObj [(''mapLayer'', JObj [(''pk'', JNum 7)])])]
   \<and> getGeoNodeMapLayers (JObj [(''map'', JObj [(''layers'',
      JArr [JObj [(''id'', JStr ''bg''), (''group'', JStr ''background'')],
            JObj [(''id'', JStr ''l1''), (''type'', JStr ''wms''), (''style'', JStr ''s0''),
            (''extendedParams'', JObj [(''mapLayer'', JObj [(''pk'', JNum 7)])])]])])])
     = Inr [JObj [(''pk'', JNum 7), (''current_style'', JStr ''s0''),
            (''extra_params'', JObj [(''msId'', JStr ''l1'')]), (''name'', JStr []),
            (''order'', JNum 0), (''opacity'', JNum 1), (''visibility'', JUndefined)]]
   \<and> getProp (JObj [(''pk'', JNum 7), (''current_style'', JStr ''s0''),
            (''extra_params'', JObj [(''msId'', JStr ''l1'')]), (''name'', JStr []),
            (''order'', JNum 0), (''opacity'', JNum 1), (''visibility'', JUndefined)]) ''order'' = JNum 0
   \<and> getProp (JObj [(''pk'', JNum 7), (''current_style'', JStr ''s0''),
            (''extra_params'', JObj [(''msId'', JStr ''l1'')]), (''name'', JStr []),
            (''order'', JNum 0), (''opacity'', JNum 1), (''visibility'', JUndefined)]) ''order'' \<noteq> JNum 1"
  using sample_entries
  by (simp add: layersOf_def js_or_def qdot_def ownProp_def mapLayerOf_def)


section \<open>Properties: upload lists\<close>




lemma truthy_normalizeUpload [simp]: "truthy (normalizeUpload c)"
  by (simp add: normalizeUpload_def objLit_def)











lemma uniqBySeen_head: "uniqBySeen f [] (x # xs) = x # uniqBySeen f [f x] xs"
  by simp



lemma length_insertBy: "length (insertBy cmp x ys) = Suc (length ys)"
  by (induction ys) auto


















lemma qdot_normalizeUpload [simp]: "qdot (normalizeUpload c) k = getProp (normalizeUpload c) k"
  by (simp add: qdot_def normalizeUpload_def)










section \<open>Properties: the direct-save epic\<close>







lemma sample_requests:
  "startRequests sampleSaveState =
     ([GetResourceByPk (JNum 7), DeleteGeoLimits (JNum 7) (JNum 3) (JStr ''user''),
       UpdateGeoLimits (JNum 7) (JNum 4) (JStr ''group'') (JObj [(''features'', JArr [JStr ''f''])])],
      False)"
  by code_simp





lemma dispatchedActions_append:
  "dispatchedActions (xs @ ys) = dispatchedActions xs @ dispatchedActions ys"
  by (induction xs rule: dispatchedActions.induct) simp_all

lemma dispatchedActions_map [simp]: "dispatchedActions (map Dispatched acts) = acts"
  by (induction acts) simp_all

lemma dispatchedActions_started [simp]: "dispatchedActions (map Started rs) = []"
  by (induction rs) simp_all

lemma startGeoLimits_length:
  "startGeoLimits rid ls = (rs, False) \<Longrightarrow> length rs = length ls"
  by (induction ls arbitrary: rs) (auto split: sum.splits prod.splits)

lemma startRequests_length:
  assumes "\<not> snd (startRequests st)"
  shows "length (fst (startRequests st)) = Suc (length (limitsOf st))"
proof (cases "truthy (sel_geoLimits st)")
  case False
  then have "limitsOf st = []"
    by (cases "sel_geoLimits st") (simp_all add: limitsOf_def)
  with False show ?thesis by (simp add: startRequests_def)
next
  case True
  with assms obtain ls where ls: "sel_geoLimits st = JArr ls"
    by (cases "sel_geoLimits st") (simp_all add: startRequests_def)
  obtain rs raised where rs: "startGeoLimits (resourceIdOf st) ls = (rs, raised)"
    by (cases "startGeoLimits (resourceIdOf st) ls")
  with assms ls have "\<not> raised" by (simp add: startRequests_def)
  with rs startGeoLimits_length [of "resourceIdOf st" ls rs] have "length rs = length ls" by simp
  with ls rs show ?thesis by (simp add: startRequests_def limitsOf_def)
qed

lemma filterE_total:
  "\<forall>x\<in>set xs. f x = Inr (p x) \<Longrightarrow> filterE f xs = Inr (filter p xs)"
  by (induction xs) (simp_all add: bindE_def)

lemma onResponses_Inr:
  assumes "\<forall>r\<in>set resps. \<not> nullish r"
  shows "onResponses st resource resps =
     Inr [SaveContent (resourceIdOf st)
            (JObj [(''name'', if truthy (sel_resourceName st) then sel_resourceName st
                              else qdot resource ''title''),
                   (''description'', if truthy (sel_resourceDescription st)
                                     then sel_resourceDescription st
                                     else qdot resource ''abstract''),
                   (''extension'', qdot resource ''extension''),
                   (''href'', qdot resource ''href'')])
            (JBool False)
            (if \<exists>r\<in>set resps. truthy (getProp r ''error'')
             then JObj [(''title'', JStr ''gnviewer.warningGeoLimitsSaveTitle''),
                        (''message'', JStr ''gnviewer.warningGeoLimitsSaveMessage'')]
             else JBool True),
          ResetGeoLimits]"
proof -
  from assms have "filterE (\<lambda>r. bindE (dot r ''error'') (\<lambda>e. Inr (truthy e))) resps
                     = Inr (filter (\<lambda>r. truthy (getProp r ''error'')) resps)"
    by (intro filterE_total) (simp add: bindE_def dot_def)
  moreover have "(0 < length (filter (\<lambda>r. truthy (getProp r ''error'')) resps))
                   = (\<exists>r\<in>set resps. truthy (getProp r ''error''))"
    by (simp add: filter_empty_conv)
  ultimately show ?thesis
    by (simp add: onResponses_def bindE_def Let_def)
qed

lemma await_all_settled:
  assumes "distinct (map fst (seen @ arr))"
    and "set (map fst (seen @ arr)) = {..<len}"
    and "map_of (seen @ arr) 0 = Some (Fulfilled resource)"
    and "arr \<noteq> []"
  shows "dispatchedActions (await st msg len seen False arr)
           = (case onResponses st resource (allResponses st (seen @ arr)) of
                Inl e \<Rightarrow> dispatchedActions (caught (thrown msg))
              | Inr acts \<Rightarrow> acts)"
  using assms
proof (induction arr arbitrary: seen)
  case Nil
  then show ?case by simp
next
  case (Cons p arr)
  obtain i s where p: "p = (i, s)" by (cases p)
  let ?seen = "seen @ [(i, s)]"
  from Cons.prems(2) p have i: "i < len" by auto
  from Cons.prems(1) p have fresh: "map_of seen i = None"
    by (auto simp: map_of_eq_None_iff)
  have fetch: "\<not> (i = 0 \<and> (case s of Rejected err \<Rightarrow> True | Fulfilled v \<Rightarrow> False))"
  proof
    assume a: "i = 0 \<and> (case s of Rejected err \<Rightarrow> True | Fulfilled v \<Rightarrow> False)"
    with fresh Cons.prems(3) p have "s = Fulfilled resource"
      by (simp add: map_add_def)
    with a show False by simp
  qed
  have all: "list_all (\<lambda>j. map_of ?seen j \<noteq> None) [0..<len] \<longleftrightarrow> arr = []"
  proof
    assume "arr = []"
    with Cons.prems(2) p have "set (map fst ?seen) = {..<len}" by simp
    then have "\<forall>j<len. j \<in> fst ` set ?seen" by auto
    then show "list_all (\<lambda>j. map_of ?seen j \<noteq> None) [0..<len]"
      unfolding list_all_iff map_of_eq_None_iff by simp
  next
    assume a: "list_all (\<lambda>j. map_of ?seen j \<noteq> None) [0..<len]"
    show "arr = []"
    proof (rule ccontr)
      assume "arr \<noteq> []"
      then obtain k t arr' where arr: "arr = (k, t) # arr'" by (cases arr) auto
      with Cons.prems(2) p have "k < len" by auto
      with a have "map_of ?seen k \<noteq> None" by (simp add: list_all_iff)
      then have "k \<in> fst ` set ?seen" unfolding map_of_eq_None_iff by simp
      with Cons.prems(1) p arr show False by auto
    qed
  qed
  show ?case
  proof (cases "arr = []")
    case True
    from Cons.prems(3) p True have "settlementOf ?seen 0 = Fulfilled resource"
      by (simp add: settlementOf_def)
    with i fresh fetch all True p show ?thesis
      by (cases "i = 0"; cases s) (simp_all add: dispatchedActions_append split: sum.splits)
  next
    case False
    from Cons.prems p have "distinct (map fst (?seen @ arr))"
      "set (map fst (?seen @ arr)) = {..<len}"
      "map_of (?seen @ arr) 0 = Some (Fulfilled resource)"
      by simp_all
    from Cons.IH [OF this False] i fresh fetch all False p show ?thesis
      by (cases "i = 0"; cases s) simp_all
  qed
qed

lemma allResponses_nth:
  "k < length (limitsOf st) \<Longrightarrow>
     allResponses st seen ! k
       = geoLimitsResponse (resourceIdOf st) (limitsOf st ! k) (settlementOf seen (Suc k))"
  by (simp add: allResponses_def nth_enumerate_eq)

lemma length_allResponses [simp]: "length (allResponses st seen) = length (limitsOf st)"
  by (simp add: allResponses_def)

lemma settlementOf_mem:
  "distinct (map fst arrivals) \<Longrightarrow> (i, s) \<in> set arrivals \<Longrightarrow> settlementOf arrivals i = s"
  by (simp add: settlementOf_def)

text \<open>
  Claim C4. When the array of requests is built without an exception, every request
  settles once, the resource fetch is fulfilled, and the geo-limits calls that are
  fulfilled give a value other than \<open>null\<close> and \<open>undefined\<close>, the epic dispatches
  \<open>savingResource\<close>, \<open>saveContent\<close> and \<open>resetGeoLimits\<close>, whatever the geo-limits calls
  did. The notification of \<open>saveContent\<close> is the warning titled
  \<open>gnviewer.warningGeoLimitsSaveTitle\<close> when a geo-limits call was rejected (or answered
  with a truthy \<open>error\<close>), and \<open>true\<close> otherwise; a rejected call counts as the marker
  \<open>{ error: true, resourceId, limits }\<close>.
\<close>

theorem geo_limits_failures_become_warning:
  assumes started: "\<not> snd (startRequests st)"
    and once: "distinct (map fst arrivals)"
    and every: "set (map fst arrivals) = {..<length (fst (startRequests st))}"
    and fetched: "(0, Fulfilled resource) \<in> set arrivals"
    and answers: "\<forall>i v. (i, Fulfilled v) \<in> set arrivals \<and> 0 < i \<longrightarrow> \<not> nullish v"
  shows "dispatchedActions (gnSaveDirectContent st msg arrivals) =
           [SavingResource,
            SaveContent (resourceIdOf st)
              (JObj [(''name'', if truthy (sel_resourceName st) then sel_resourceName st
                                else qdot resource ''title''),
                     (''description'', if truthy (sel_resourceDescription st)
                                       then sel_resourceDescription st
                                       else qdot resource ''abstract''),
                     (''extension'', qdot resource ''extension''),
                     (''href'', qdot resource ''href'')])
              (JBool False)
              (if (\<exists>i x. (i, Rejected x) \<in> set arrivals \<and> 0 < i)
                  \<or> (\<exists>i v. (i, Fulfilled v) \<in> set arrivals \<and> 0 < i \<and> truthy (getProp v ''error''))
               then JObj [(''title'', JStr ''gnviewer.warningGeoLimitsSaveTitle''),
                          (''message'', JStr ''gnviewer.warningGeoLimitsSaveMessage'')]
               else JBool True),
            ResetGeoLimits]
         \<and> (\<forall>k x. (Suc k, Rejected x) \<in> set arrivals \<longrightarrow>
                allResponses st arrivals ! k
                  = JObj [(''error'', JBool True), (''resourceId'', resourceIdOf st),
                          (''limits'', limitsOf st ! k)])"
proof -
  let ?len = "length (fst (startRequests st))"
  let ?resps = "allResponses st arrivals"
  have len: "?len = Suc (length (limitsOf st))"
    using started by (rule startRequests_length)
  have pos: "Suc k < ?len \<and> k < length (limitsOf st)" if "(Suc k, s) \<in> set arrivals" for k s
  proof -
    from that have "Suc k \<in> set (map fst arrivals)" by force
    with every len show ?thesis by simp
  qed
  have resp: "?resps ! k = geoLimitsResponse (resourceIdOf st) (limitsOf st ! k) s"
    if "(Suc k, s) \<in> set arrivals" for k s
    using pos [OF that] settlementOf_mem [OF once that] by (simp add: allResponses_nth)
  have arrived: "\<exists>s. (Suc k, s) \<in> set arrivals" if "k < length (limitsOf st)" for k
  proof -
    from that len every have "Suc k \<in> set (map fst arrivals)" by simp
    then show ?thesis by auto
  qed
  have marker: "?resps ! k = JObj [(''error'', JBool True), (''resourceId'', resourceIdOf st),
                                   (''limits'', limitsOf st ! k)]"
    if "(Suc k, Rejected x) \<in> set arrivals" for k x
    using resp [OF that] by (simp add: geoLimitsResponse_def)
  have defined: "\<forall>r\<in>set ?resps. \<not> nullish r"
  proof
    fix r assume "r \<in> set ?resps"
    then obtain k where k: "k < length (limitsOf st)" and r: "r = ?resps ! k"
      by (metis in_set_conv_nth length_allResponses)
    from arrived [OF k] obtain s where s: "(Suc k, s) \<in> set arrivals" ..
    show "\<not> nullish r"
    proof (cases s)
      case (Fulfilled v)
      with s answers have "\<not> nullish v" by blast
      with resp [OF s] r Fulfilled show ?thesis by (simp add: geoLimitsResponse_def)
    next
      case (Rejected x)
      with marker s r show ?thesis by simp
    qed
  qed
  have warned: "(\<exists>r\<in>set ?resps. truthy (getProp r ''error''))
      \<longleftrightarrow> (\<exists>i x. (i, Rejected x) \<in> set arrivals \<and> 0 < i)
          \<or> (\<exists>i v. (i, Fulfilled v) \<in> set arrivals \<and> 0 < i \<and> truthy (getProp v ''error''))"
    (is "?L \<longleftrightarrow> ?R")
  proof
    assume ?L
    then obtain r where "r \<in> set ?resps" and t: "truthy (getProp r ''error'')" ..
    then obtain k where k: "k < length (limitsOf st)" and r: "r = ?resps ! k"
      by (metis in_set_conv_nth length_allResponses)
    from arrived [OF k] obtain s where s: "(Suc k, s) \<in> set arrivals" ..
    show ?R
    proof (cases s)
      case (Fulfilled v)
      with resp [OF s] r t have "truthy (getProp v ''error'')"
        by (simp add: geoLimitsResponse_def)
      with s Fulfilled show ?thesis by blast
    next
      case (Rejected x)
      with s show ?thesis by blast
    qed
  next
    assume ?R
    then consider i x where "(i, Rejected x) \<in> set arrivals" "0 < i"
      | i v where "(i, Fulfilled v) \<in> set arrivals" "0 < i" "truthy (getProp v ''error'')"
      by blast
    then show ?L
    proof cases
      case 1
      then obtain k where i: "i = Suc k" by (cases i) auto
      with 1 have m: "(Suc k, Rejected x) \<in> set arrivals" by simp
      from marker [OF m] have "truthy (getProp (?resps ! k) ''error'')"
        by (simp add: ownProp_def)
      moreover from pos [OF m] have "?resps ! k \<in> set ?resps" by simp
      ultimately show ?thesis by blast
    next
      case 2
      then obtain k where i: "i = Suc k" by (cases i) auto
      with 2 have m: "(Suc k, Fulfilled v) \<in> set arrivals" by simp
      from resp [OF m] 2 have "truthy (getProp (?resps ! k) ''error'')"
        by (simp add: geoLimitsResponse_def)
      moreover from pos [OF m] have "?resps ! k \<in> set ?resps" by simp
      ultimately show ?thesis by blast
    qed
  qed
  from fetched have ne: "arrivals \<noteq> []" by auto
  from once fetched have zero: "map_of ([] @ arrivals) 0 = Some (Fulfilled resource)" by simp
  from once have d: "distinct (map fst ([] @ arrivals))" by simp
  from every have e: "set (map fst ([] @ arrivals)) = {..<?len}" by simp
  have "dispatchedActions (await st msg ?len [] False arrivals)
          = (case onResponses st resource ?resps of
               Inl e \<Rightarrow> dispatchedActions (caught (thrown msg)) | Inr acts \<Rightarrow> acts)"
    using await_all_settled [OF d e zero ne] by simp
  with started have "dispatchedActions (gnSaveDirectContent st msg arrivals)
      = SavingResource # (case onResponses st resource ?resps of
               Inl e \<Rightarrow> dispatchedActions (caught (thrown msg)) | Inr acts \<Rightarrow> acts)"
    by (cases "startRequests st") (simp add: gnSaveDirectContent_def dispatchedActions_append)
  then have main: "dispatchedActions (gnSaveDirectContent st msg arrivals) =
           [SavingResource,
            SaveContent (resourceIdOf st)
              (JObj [(''name'', if truthy (sel_resourceName st) then sel_resourceName st
                                else qdot resource ''title''),
                     (''description'', if truthy (sel_resourceDescription st)
                                       then sel_resourceDescription st
                                       else qdot resource ''abstract''),
                     (''extension'', qdot resource ''extension''),
                     (''href'', qdot resource ''href'')])
              (JBool False)
              (if (\<exists>i x. (i, Rejected x) \<in> set arrivals \<and> 0 < i)
                  \<or> (\<exists>i v. (i, Fulfilled v) \<in> set arrivals \<and> 0 < i \<and> truthy (getProp v ''error''))
               then JObj [(''title'', JStr ''gnviewer.warningGeoLimitsSaveTitle''),
                          (''message'', JStr ''gnviewer.warningGeoLimitsSaveMessage'')]
               else JBool True),
            ResetGeoLimits]"
    unfolding onResponses_Inr [OF defined] warned by simp
  from main marker show ?thesis by blast
qed

text \<open>
  A run where the update of the second geo limit is rejected: the save is dispatched with
  the warning, and the second response is the marker.
\<close>

theorem geo_limits_failures_become_warning_witness:
  "dispatchedActions (gnSaveDirectContent sampleSaveState ''msg'' sampleArrivals) =
     [SavingResource,
      SaveContent (JNum 7)
        (JObj [(''name'', JStr ''name''), (''description'', JUndefined),
               (''extension'', JUndefined), (''href'', JUndefined)])
        (JBool False)
        (JObj [(''title'', JStr ''gnviewer.warningGeoLimitsSaveTitle''),
               (''message'', JStr ''gnviewer.warningGeoLimitsSaveMessage'')]),
      ResetGeoLimits]
   \<and> allResponses sampleSaveState sampleArrivals ! 1
       = JObj [(''error'', JBool True), (''resourceId'', JNum 7),
               (''limits'', JObj [(''id'', JNum 4), (''type'', JStr ''group''),
                                  (''features'', JArr [JStr ''f''])])]"
proof -
  have started: "\<not> snd (startRequests sampleSaveState)"
    by (simp add: sample_requests)
  have once: "distinct (map fst sampleArrivals)"
    by (simp add: sampleArrivals_def)
  have every: "set (map fst sampleArrivals) = {..<length (fst (startRequests sampleSaveState))}"
    by (auto simp: sample_requests sampleArrivals_def)
  have fetched: "(0, Fulfilled (JObj [(''title'', JStr ''t'')])) \<in> set sampleArrivals"
    by (simp add: sampleArrivals_def)
  have answers: "\<forall>i v. (i, Fulfilled v) \<in> set sampleArrivals \<and> 0 < i \<longrightarrow> \<not> nullish v"
    by (auto simp: sampleArrivals_def)
  have warn: "((\<exists>i x. (i, Rejected x) \<in> set sampleArrivals \<and> 0 < i)
               \<or> (\<exists>i v. (i, Fulfilled v) \<in> set sampleArrivals \<and> 0 < i
                          \<and> truthy (getProp v ''error''))) = True"
    by (auto simp: sampleArrivals_def)
  have rid: "resourceIdOf sampleSaveState = JNum 7" by code_simp
  have lim: "limitsOf sampleSaveState ! Suc 0
      = JObj [(''id'', JNum 4), (''type'', JStr ''group''), (''features'', JArr [JStr ''f''])]"
    by (simp add: limitsOf_def sampleSaveState_def)
  have rej: "(Suc (Suc 0), Rejected JNull) \<in> set sampleArrivals"
    by (simp add: sampleArrivals_def)
  have name: "sel_resourceName sampleSaveState = JStr ''name''"
    and description: "sel_resourceDescription sampleSaveState = JUndefined"
    by (simp_all add: sampleSaveState_def)
  from geo_limits_failures_become_warning
         [OF started once every fetched answers, of "''msg''", THEN conjunct1]
  have first: "dispatchedActions (gnSaveDirectContent sampleSaveState ''msg'' sampleArrivals) =
     [SavingResource,
      SaveContent (JNum 7)
        (JObj [(''name'', JStr ''name''), (''description'', JUndefined),
               (''extension'', JUndefined), (''href'', JUndefined)])
        (JBool False)
        (JObj [(''title'', JStr ''gnviewer.warningGeoLimitsSaveTitle''),
               (''message'', JStr ''gnviewer.warningGeoLimitsSaveMessage'')]),
      ResetGeoLimits]"
    unfolding warn by (simp add: rid name description qdot_def ownProp_def)
  from geo_limits_failures_become_warning
         [OF started once every fetched answers, of "''msg''", THEN conjunct2, rule_format, OF rej]
  have second: "allResponses sampleSaveState sampleArrivals ! Suc 0
       = JObj [(''error'', JBool True), (''resourceId'', JNum 7),
               (''limits'', JObj [(''id'', JNum 4), (''type'', JStr ''group''),
                                  (''features'', JArr [JStr ''f''])])]"
    by (simp add: rid lim)
  from first second show ?thesis by simp
qed

section \<open>Properties: the compact catalog\<close>

lemma fold_updateRequest [simp]:
  "c_page (fold applyCommand (updateRequest hr hc c opts) c') = c_page c'"
  "c_q (fold applyCommand (updateRequest hr hc c opts) c') = c_q c'"
  "c_entries (fold applyCommand (updateRequest hr hc c opts) c') = c_entries c'"
  by (simp_all add: updateRequest_def)


lemma commit_same_q:
  assumes "c_q cur = c_q prev" and "c_page cur = c_page prev"
  shows "commit hr hc prev cur = (cur, [])"
  using assms by (simp add: commit_def effectsAfter_def)

lemma commit_fields:
  assumes "commit hr hc prev cur = (c1, r1)"
  shows "c_q c1 = c_q cur"
    and "c_entries c1 = c_entries cur"
    and "c_q cur \<noteq> c_q prev \<Longrightarrow> c_page c1 = 1"
    and "c_q cur = c_q prev \<Longrightarrow> c_page c1 = c_page cur"
  using assms
  by (auto simp: commit_def effectsAfter_def pageEffect_def qEffect_def Let_def)

lemma commit_again:
  assumes "commit hr hc prev cur = (c1, r1)"
  shows "commit hr hc cur c1 = (c1, [])"
proof (cases "c_q cur = c_q prev")
  case True
  with commit_fields [OF assms] show ?thesis by (simp add: commit_same_q)
next
  case False
  with commit_fields [OF assms] have "c_q c1 = c_q cur" "c_page c1 = 1" by simp_all
  then show ?thesis by (simp add: commit_def effectsAfter_def pageEffect_def)
qed

text \<open>The effects of a render change neither the query nor, after the first round, the
  page: the renders that follow run no effect.\<close>

lemma settle_stable:
  assumes "commit hr hc prev cur = (c1, r1)" and "commit hr hc cur c1 = (c2, r2)"
  shows "commit hr hc c1 c2 = (c2, [])"
  using assms commit_again [OF assms(1)] by (simp add: commit_same_q)







end
